theory Spec2Isabelle
  imports Complex_Main
begin

section \<open>The storefront backend of \<^verbatim>\<open>src/backend/server.py\<close>\<close>

text \<open>
  The request handlers of the server are embedded as functions from the database state
  to a result and the database state afterwards. The document database is a record of
  three collections, each a list of documents in insertion order. The language-model
  provider, the identifier generators, the clock, the database's reading of patterns and
  of filter values, Python's Unicode string methods and the validation of text fields are
  outside the repository: a handler receives them in an environment record and the
  theorems hold for every environment. The connection to the database does not fail in
  this model; requests run one after the other.
\<close>

subsection \<open>Exceptions\<close>

text \<open>
  \<^verbatim>\<open>HTTPException(status_code, detail)\<close> is a subclass of \<^verbatim>\<open>Exception\<close>, so an
  \<^verbatim>\<open>except Exception\<close> clause catches it like any other exception. \<open>ProviderError\<close>
  is an exception raised by the language-model client, \<open>OperationFailure\<close> one raised by
  the database for a query it rejects, \<open>OverflowError\<close> the driver's for an integer that
  does not fit a document, \<open>ValueError\<close> Python's, \<open>ValidationError\<close> the one of a model
  constructor, \<open>RequestValidationError\<close> the one of a route that refuses a parameter
  before it calls the handler. The text such an exception carries here is a label for
  the reader. The detail of a response is a literal text or \<^verbatim>\<open>str(e)\<close> of a caught
  exception; the rendering of \<^verbatim>\<open>str(e)\<close> belongs to the class of \<^verbatim>\<open>e\<close>, so it is kept as the
  term \<open>Str e\<close>.
\<close>

datatype exn =
    HTTPException nat detail
  | ProviderError string
  | OperationFailure string
  | OverflowError string
  | ValueError string
  | ValidationError string
  | RequestValidationError string
  and detail = Text string | Str exn

type_synonym 'a result = "exn + 'a"

text \<open>
  The status the client sees: 200 for a value, the code of an \<^verbatim>\<open>HTTPException\<close>, 422 for
  a refused parameter, and 500 for any other exception that leaves a route.
\<close>

fun status_of :: "'a result \<Rightarrow> nat" where
  "status_of (Inr v) = 200"
| "status_of (Inl (HTTPException code d)) = code"
| "status_of (Inl (RequestValidationError msg)) = 422"
| "status_of (Inl e) = 500"

subsection \<open>Values\<close>

text \<open>A JSON value of a request body.\<close>

datatype json =
    JNull
  | JBool bool
  | JInt int
  | JFloat real
  | JStr string
  | JArr "json list"
  | JObj "(string \<times> json) list"

type_synonym datetime = nat

type_synonym ObjectId = nat

text \<open>
  A Python value that a handler returns without a response model. The route encodes it as
  JSON; an \<^verbatim>\<open>ObjectId\<close> has no encoding, and the encoder raises on it.
\<close>

datatype pyval =
    PNone
  | PBool bool
  | PInt int
  | PFloat real
  | PStr string
  | PDatetime datetime
  | PObjectId ObjectId
  | PList "pyval list"
  | PDict "(string \<times> pyval) list"

primrec jsonable :: "pyval \<Rightarrow> bool" where
  "jsonable PNone = True"
| "jsonable (PBool b) = True"
| "jsonable (PInt i) = True"
| "jsonable (PFloat x) = True"
| "jsonable (PStr s) = True"
| "jsonable (PDatetime t) = True"
| "jsonable (PObjectId oid) = False"
| "jsonable (PList vs) = list_all id (map jsonable vs)"
| "jsonable (PDict kvs) = list_all snd (map (map_prod id jsonable) kvs)"

subsection \<open>Models\<close>

record Product =
  p_id :: string
  p_name :: string
  p_description :: string
  p_price :: real
  p_category :: string
  p_image_url :: string
  p_tags :: "string list"
  p_in_stock :: bool
  p_created_at :: datetime

record CartItem =
  c_id :: string
  c_product_id :: string
  c_user_id :: string
  c_quantity :: int
  c_added_at :: datetime

record CartItemCreate =
  cc_product_id :: string
  cc_user_id :: string
  cc_quantity :: int

record ChatMessage =
  m_id :: string
  m_user_id :: string
  m_message :: string
  m_response :: string
  m_timestamp :: datetime

text \<open>An entry of \<^verbatim>\<open>SAMPLE_PRODUCTS\<close>.\<close>

record product_data =
  s_name :: string
  s_price :: real
  s_category :: string
  s_image_url :: string
  s_tags :: "string list"

subsection \<open>The database\<close>

text \<open>
  A document of the cart collection is the dictionary of a \<^verbatim>\<open>CartItem\<close> together with the
  \<^verbatim>\<open>_id\<close> the driver adds on insertion. \<^verbatim>\<open>CartItem(**document)\<close> ignores the \<^verbatim>\<open>_id\<close>. The
  handlers read product documents through \<^verbatim>\<open>Product(**document)\<close> only, which drops their
  \<^verbatim>\<open>_id\<close> as well, and never read the chat history, so these two collections hold the
  models.
\<close>

record cart_doc = CartItem +
  c_oid :: ObjectId

definition cart_document :: "ObjectId \<Rightarrow> CartItem \<Rightarrow> cart_doc" where
  "cart_document oid item =
     \<lparr>c_id = c_id item, c_product_id = c_product_id item, c_user_id = c_user_id item,
      c_quantity = c_quantity item, c_added_at = c_added_at item, c_oid = oid\<rparr>"

definition CartItem_of :: "cart_doc \<Rightarrow> CartItem" where
  "CartItem_of doc =
     \<lparr>c_id = c_id doc, c_product_id = c_product_id doc, c_user_id = c_user_id doc,
      c_quantity = c_quantity doc, c_added_at = c_added_at doc\<rparr>"

record db =
  products :: "Product list"
  cart :: "cart_doc list"
  chat_history :: "ChatMessage list"

text \<open>
  The collection operations the handlers call: \<^verbatim>\<open>find_one\<close> returns the first matching
  document, \<^verbatim>\<open>find\<close> all of them in order, \<^verbatim>\<open>insert_one\<close> appends, \<^verbatim>\<open>update_one\<close> changes the
  first matching document, \<^verbatim>\<open>delete_one\<close> removes the first matching document and reports
  \<^verbatim>\<open>deleted_count\<close>.
\<close>

fun find_one :: "('a \<Rightarrow> bool) \<Rightarrow> 'a list \<Rightarrow> 'a option" where
  "find_one P [] = None"
| "find_one P (x # xs) = (if P x then Some x else find_one P xs)"

definition find_all :: "('a \<Rightarrow> bool) \<Rightarrow> 'a list \<Rightarrow> 'a list" where
  "find_all P xs = filter P xs"

definition insert_one :: "'a \<Rightarrow> 'a list \<Rightarrow> 'a list" where
  "insert_one x xs = xs @ [x]"

fun update_one :: "('a \<Rightarrow> bool) \<Rightarrow> ('a \<Rightarrow> 'a) \<Rightarrow> 'a list \<Rightarrow> 'a list" where
  "update_one P f [] = []"
| "update_one P f (x # xs) = (if P x then f x # xs else x # update_one P f xs)"

fun delete_one :: "('a \<Rightarrow> bool) \<Rightarrow> 'a list \<Rightarrow> 'a list \<times> nat" where
  "delete_one P [] = ([], 0)"
| "delete_one P (x # xs) =
     (if P x then (xs, 1) else (case delete_one P xs of (ys, n) \<Rightarrow> (x # ys, n)))"

text \<open>
  An integer of a document is stored in at most eight bytes: the driver raises
  \<^verbatim>\<open>OverflowError\<close> when it is to encode any other.
\<close>

definition bson_int :: "int \<Rightarrow> bool" where
  "bson_int i = (- (2 ^ 63) \<le> i \<and> i < 2 ^ 63)"

definition int_overflow :: exn where
  "int_overflow = OverflowError ''MongoDB can only handle up to 8-byte ints''"

subsection \<open>The environment of a request\<close>

text \<open>
  \<open>send_message k prompt\<close> is the outcome of the \<open>k\<close>-th call of \<^verbatim>\<open>chat.send_message\<close>
  in the request: the reply, or the exception the client raises. \<open>uuid4 k\<close> and
  \<open>utcnow k\<close> are the values the \<open>k\<close>-th model construction draws from
  \<^verbatim>\<open>uuid.uuid4()\<close> and \<^verbatim>\<open>datetime.now(timezone.utc)\<close>, \<open>object_id k\<close> the \<^verbatim>\<open>_id\<close> of the \<open>k\<close>-th
  inserted document. \<open>regex pat\<close> is the database's reading of a \<^verbatim>\<open>$regex\<close> pattern: the
  exception of a query with a pattern it rejects, or the test of whether the pattern is
  found in a text. \<open>filter_value v\<close> is its reading of a filter \<^verbatim>\<open>{"user_id": v}\<close> whose
  value is not a text: the exception, or the test on the stored user id.
  \<open>str_strip\<close> and \<open>str_lower\<close> are Python's \<^verbatim>\<open>str.strip()\<close> and \<^verbatim>\<open>str.lower()\<close>,
  \<open>format_value v\<close> the text an f-string puts for a body value that is not a text, and
  \<open>coerce_str v\<close> the outcome of validating such a value for a \<^verbatim>\<open>str\<close> field of a model
  (nothing when the validation fails).
\<close>

record env =
  send_message :: "nat \<Rightarrow> string \<Rightarrow> string result"
  uuid4 :: "nat \<Rightarrow> string"
  utcnow :: "nat \<Rightarrow> datetime"
  object_id :: "nat \<Rightarrow> ObjectId"
  regex :: "string \<Rightarrow> (string \<Rightarrow> bool) result"
  filter_value :: "json \<Rightarrow> (string \<Rightarrow> bool) result"
  str_strip :: "string \<Rightarrow> string"
  str_lower :: "string \<Rightarrow> string"
  format_value :: "json \<Rightarrow> string"
  coerce_str :: "json \<Rightarrow> string option"

subsection \<open>Strings and body values\<close>

text \<open>\<^verbatim>\<open>s.split(sep)\<close> for a one-character separator, and \<^verbatim>\<open>sep.join(xs)\<close>.\<close>

fun str_split :: "char \<Rightarrow> string \<Rightarrow> string list" where
  "str_split sep [] = [[]]"
| "str_split sep (c # cs) =
     (if c = sep then [] # str_split sep cs
      else (case str_split sep cs of
              [] \<Rightarrow> [[c]]
            | r # rs \<Rightarrow> (c # r) # rs))"

fun str_join :: "string \<Rightarrow> string list \<Rightarrow> string" where
  "str_join sep [] = []"
| "str_join sep [x] = x"
| "str_join sep (x # y # ys) = x @ sep @ str_join sep (y # ys)"

text \<open>\<^verbatim>\<open>dict.get(key, default)\<close>.\<close>

definition dict_get :: "('k \<rightharpoonup> 'v) \<Rightarrow> 'k \<Rightarrow> 'v \<Rightarrow> 'v" where
  "dict_get m k dflt = (case m k of None \<Rightarrow> dflt | Some v \<Rightarrow> v)"

text \<open>
  A body value in an f-string, as the value of a \<^verbatim>\<open>str\<close> field of a model (a text is taken
  as it is, \<^verbatim>\<open>null\<close> is refused), and as the value of the filter \<^verbatim>\<open>{"user_id": v}\<close> on the
  cart (a text selects the entries with that user id).
\<close>

fun py_str :: "env \<Rightarrow> json \<Rightarrow> string" where
  "py_str w (JStr s) = s"
| "py_str w v = format_value w v"

fun str_field :: "env \<Rightarrow> json \<Rightarrow> string option" where
  "str_field w (JStr s) = Some s"
| "str_field w JNull = None"
| "str_field w v = coerce_str w v"

fun user_id_filter :: "env \<Rightarrow> json \<Rightarrow> (string \<Rightarrow> bool) result" where
  "user_id_filter w (JStr s) = Inr (\<lambda>user_id. user_id = s)"
| "user_id_filter w v = filter_value w v"

subsection \<open>The handler boundary\<close>

text \<open>
  \<^verbatim>\<open>try: ... except Exception as e: raise HTTPException(status_code=500, detail=str(e))\<close>
  around a handler body: every exception the body raises, an \<^verbatim>\<open>HTTPException\<close> included,
  leaves the handler as a 500. Writes made before the exception stay.
\<close>

fun except_500 :: "'a result \<times> db \<Rightarrow> 'a result \<times> db" where
  "except_500 (Inl e, d) = (Inl (HTTPException 500 (Str e)), d)"
| "except_500 (Inr v, d) = (Inr v, d)"

text \<open>
  A route without a response model encodes the value its handler returns; the encoder
  raises \<^verbatim>\<open>ValueError\<close> on a value it cannot encode, after the handler has returned and so
  outside its \<^verbatim>\<open>try\<close>.
\<close>

fun respond :: "pyval result \<times> db \<Rightarrow> pyval result \<times> db" where
  "respond (Inl e, d) = (Inl e, d)"
| "respond (Inr v, d) =
     (if jsonable v then (Inr v, d) else (Inl (ValueError ''ObjectId is not JSON serializable''), d))"

subsection \<open>Helpers that talk to the language model\<close>

text \<open>A value of type \<^verbatim>\<open>Optional[str]\<close> in a condition: \<^verbatim>\<open>None\<close> and \<^verbatim>\<open>""\<close> are false.\<close>

fun truthy :: "string option \<Rightarrow> bool" where
  "truthy None = False"
| "truthy (Some s) = (s \<noteq> [])"

definition generate_product_description :: "env \<Rightarrow> nat \<Rightarrow> string \<Rightarrow> string \<Rightarrow> string result" where
  "generate_product_description w k product_name category =
     (let prompt = ''Generate a compelling, detailed product description for: '' @ product_name
            @ '' in the '' @ category
            @ '' category. Make it sound appealing and highlight key features. Keep it under 150 words.''
      in send_message w k prompt)"

definition search_prompt :: "string \<Rightarrow> string option \<Rightarrow> string" where
  "search_prompt query category =
     (let category_filter =
            (case category of
               None \<Rightarrow> []
             | Some c \<Rightarrow> if c \<noteq> [] then '' in the '' @ c @ '' category'' else [])
      in ''For the search query '' @ [CHR 0x27] @ query @ [CHR 0x27] @ category_filter
           @ '', provide 5-10 relevant product search terms or related keywords that would help find similar items. Return only the keywords separated by commas, no explanations.'')"

definition get_smart_search_results :: "env \<Rightarrow> string \<Rightarrow> string option \<Rightarrow> string list result" where
  "get_smart_search_results w query category =
     (case send_message w 0 (search_prompt query category) of
        Inl e \<Rightarrow> Inl e
      | Inr response \<Rightarrow> Inr (map (str_strip w) (str_split (CHR '','') response)))"

text \<open>
  The loop of \<^verbatim>\<open>get_product_recommendations\<close> over the user's cart: an item whose product
  is found adds \<^verbatim>\<open>"name (category)"\<close> to \<^verbatim>\<open>cart_items\<close>.
\<close>

fun cart_labels :: "Product list \<Rightarrow> cart_doc list \<Rightarrow> string list \<Rightarrow> string list" where
  "cart_labels ps [] cart_items = cart_items"
| "cart_labels ps (item # user_cart) cart_items =
     (case find_one (\<lambda>p. p_id p = c_product_id item) ps of
        None \<Rightarrow> cart_labels ps user_cart cart_items
      | Some product \<Rightarrow>
          cart_labels ps user_cart
            (cart_items @ [p_name product @ '' ('' @ p_category product @ '')'']))"

definition recommendation_prompt :: "db \<Rightarrow> string \<Rightarrow> string" where
  "recommendation_prompt d user_id =
     (let user_cart = take 10 (find_all (\<lambda>i. c_user_id i = user_id) (cart d));
          cart_items = cart_labels (products d) user_cart [];
          context = (if cart_items \<noteq> []
                     then ''User has these items in cart/history: '' @ str_join '', '' cart_items
                     else ''New user with no purchase history'')
      in ''Based on this context: '' @ context
           @ ''. Recommend 3-5 product categories or types that would complement their interests. Return only category names separated by commas.'')"

definition get_product_recommendations ::
  "env \<Rightarrow> db \<Rightarrow> string \<Rightarrow> string option \<Rightarrow> string list result" where
  "get_product_recommendations w d user_id current_product_id =
     (case send_message w 0 (recommendation_prompt d user_id) of
        Inl e \<Rightarrow> Inl e
      | Inr response \<Rightarrow>
          Inr (map (\<lambda>cat. str_lower w (str_strip w cat)) (str_split (CHR '','') response)))"

subsection \<open>Sample products\<close>

definition SAMPLE_PRODUCTS :: "product_data list" where
  "SAMPLE_PRODUCTS =
   [\<lparr>s_name = ''Wireless Noise-Cancelling Headphones'', s_price = 299.99,
     s_category = ''electronics'',
     s_image_url = ''https://images.unsplash.com/photo-1498049794561-7780e7231661?crop=entropy&cs=srgb&fm=jpg&ixid=M3w3NDQ2NDF8MHwxfHNlYXJjaHwxfHxlbGVjdHJvbmljc3xlbnwwfHx8fDE3NTc5MDE4ODZ8MA&ixlib=rb-4.1.0&q=85'',
     s_tags = [''wireless'', ''noise-cancelling'', ''audio'', ''premium'']\<rparr>,
    \<lparr>s_name = ''Smart Laptop Pro'', s_price = 1299.99,
     s_category = ''electronics'',
     s_image_url = ''https://images.unsplash.com/photo-1550009158-9ebf69173e03?crop=entropy&cs=srgb&fm=jpg&ixid=M3w3NDQ2NDF8MHwxfHNlYXJjaHw0fHxlbGVjdHJvbmljc3xlbnwwfHx8fDE3NTc5MDE4ODZ8MA&ixlib=rb-4.1.0&q=85'',
     s_tags = [''laptop'', ''professional'', ''high-performance'', ''portable'']\<rparr>,
    \<lparr>s_name = ''Premium Fashion Tracksuit'', s_price = 149.99,
     s_category = ''fashion'',
     s_image_url = ''https://images.unsplash.com/photo-1515886657613-9f3515b0c78f?crop=entropy&cs=srgb&fm=jpg&ixid=M3w3NTY2NzF8MHwxfHNlYXJjaHwxfHxmYXNoaW9ufGVufDB8fHx8MTc1Nzg2NTgxNnww&ixlib=rb-4.1.0&q=85'',
     s_tags = [''tracksuit'', ''comfortable'', ''stylish'', ''casual'']\<rparr>,
    \<lparr>s_name = ''Designer Shopping Bag Set'', s_price = 89.99,
     s_category = ''fashion'',
     s_image_url = ''https://images.unsplash.com/photo-1483985988355-763728e1935b?crop=entropy&cs=srgb&fm=jpg&ixid=M3w3NTY2NzF8MHwxfHNlYXJjaHwyfHxmYXNoaW9ufGVufDB8fHx8MTc1Nzg2NTgxNnww&ixlib=rb-4.1.0&q=85'',
     s_tags = [''bags'', ''designer'', ''shopping'', ''accessories'']\<rparr>,
    \<lparr>s_name = ''Modern Home Shelf System'', s_price = 199.99,
     s_category = ''home'',
     s_image_url = ''https://images.unsplash.com/photo-1524634126442-357e0eac3c14?crop=entropy&cs=srgb&fm=jpg&ixid=M3w3NDQ2NDF8MHwxfHNlYXJjaHwxfHxob21lJTIwcHJvZHVjdHN8ZW58MHx8fHwxNzU3OTAxODk1fDA&ixlib=rb-4.1.0&q=85'',
     s_tags = [''shelving'', ''modern'', ''storage'', ''minimalist'']\<rparr>,
    \<lparr>s_name = ''Ceramic Home Decor Set'', s_price = 79.99,
     s_category = ''home'',
     s_image_url = ''https://images.unsplash.com/photo-1514237487632-b60bc844a47d?crop=entropy&cs=srgb&fm=jpg&ixid=M3w3NDQ2NDF8MHwxfHNlYXJjaHwyfHxob21lJTIwcHJvZHVjdHN8ZW58MHx8fHwxNzU3OTAxODk1fDA&ixlib=rb-4.1.0&q=85'',
     s_tags = [''ceramic'', ''decor'', ''minimalist'', ''artistic'']\<rparr>,
    \<lparr>s_name = ''Smart Watch Pro'', s_price = 399.99,
     s_category = ''electronics'',
     s_image_url = ''https://images.pexels.com/photos/356056/pexels-photo-356056.jpeg'',
     s_tags = [''smartwatch'', ''fitness'', ''technology'', ''premium'']\<rparr>,
    \<lparr>s_name = ''Contemporary Furniture Piece'', s_price = 599.99,
     s_category = ''home'',
     s_image_url = ''https://images.unsplash.com/photo-1467043153537-a4fba2cd39ef?crop=entropy&cs=srgb&fm=jpg&ixid=M3w3NDQ2NDF8MHwxfHNlYXJjaHwzfHxob21lJTIwcHJvZHVjdHN8ZW58MHx8fHwxNzU3OTAxODk1fDA&ixlib=rb-4.1.0&q=85'',
     s_tags = [''furniture'', ''contemporary'', ''design'', ''quality'']\<rparr>]"

subsection \<open>Routes: products\<close>

text \<open>
  The loop of \<^verbatim>\<open>seed_products\<close>; \<open>k\<close> counts the iterations. Each iteration asks for a
  description, builds the \<^verbatim>\<open>Product\<close> (fresh id, \<^verbatim>\<open>in_stock\<close> true, creation time) and inserts
  it unless a product of that name is found. An exception ends the loop; the products
  inserted before it stay in the collection.
\<close>

definition new_product :: "env \<Rightarrow> nat \<Rightarrow> product_data \<Rightarrow> string \<Rightarrow> Product" where
  "new_product w k product_data description =
     \<lparr>p_id = uuid4 w k, p_name = s_name product_data, p_description = description,
      p_price = s_price product_data, p_category = s_category product_data,
      p_image_url = s_image_url product_data, p_tags = s_tags product_data,
      p_in_stock = True, p_created_at = utcnow w k\<rparr>"

fun seed_loop :: "env \<Rightarrow> nat \<Rightarrow> product_data list \<Rightarrow> db \<Rightarrow> string result \<times> db" where
  "seed_loop w k [] d = (Inr ''Products seeded successfully'', d)"
| "seed_loop w k (product_data # rest) d =
     (case generate_product_description w k (s_name product_data) (s_category product_data) of
        Inl e \<Rightarrow> (Inl e, d)
      | Inr description \<Rightarrow>
          (let product = new_product w k product_data description;
               existing = find_one (\<lambda>p. p_name p = p_name product) (products d)
           in if existing = None
              then seed_loop w (Suc k) rest (d\<lparr>products := insert_one product (products d)\<rparr>)
              else seed_loop w (Suc k) rest d))"

definition seed_products :: "env \<Rightarrow> db \<Rightarrow> string result \<times> db" where
  "seed_products w d = except_500 (seed_loop w 0 SAMPLE_PRODUCTS d)"

text \<open>
  The query document of \<^verbatim>\<open>get_products\<close>: an optional exact category and an optional
  \<^verbatim>\<open>$or\<close> clause, which holds the alternation pattern for name and description and the
  lower-cased terms for the tags. The terms go into the pattern as they are.
\<close>

record query =
  q_category :: "string option"
  q_or :: "(string \<times> string list) option"

definition or_clause :: "env \<Rightarrow> string list \<Rightarrow> string \<times> string list" where
  "or_clause w search_terms =
     (str_join ''|'' (map (\<lambda>term. ''(?i)'' @ term) search_terms),
      map (str_lower w) search_terms)"

definition build_query :: "env \<Rightarrow> string option \<Rightarrow> string option \<Rightarrow> query result" where
  "build_query w category search =
     (let query = \<lparr>q_category = (if truthy category then category else None), q_or = None\<rparr>
      in case search of
           None \<Rightarrow> Inr query
         | Some s \<Rightarrow>
             if s \<noteq> [] then
               (case get_smart_search_results w s category of
                  Inl e \<Rightarrow> Inl e
                | Inr keywords \<Rightarrow>
                    (let search_terms = [s] @ keywords
                     in Inr (query\<lparr>q_or := Some (or_clause w search_terms)\<rparr>)))
             else Inr query)"

text \<open>
  \<^verbatim>\<open>db.products.find(query)\<close>, run: the database raises when it rejects the pattern of the
  \<^verbatim>\<open>$or\<close> clause; otherwise a product matches when its category is the one asked for, if
  any, and, if there is an \<^verbatim>\<open>$or\<close> clause, when the pattern is found in its name or in its
  description or one of its tags is among the terms.
\<close>

definition matches :: "query \<Rightarrow> (string \<Rightarrow> bool) \<Rightarrow> Product \<Rightarrow> bool" where
  "matches q found_in p =
     ((case q_category q of None \<Rightarrow> True | Some c \<Rightarrow> p_category p = c) \<and>
      (case q_or q of
         None \<Rightarrow> True
       | Some (search_regex, terms) \<Rightarrow>
           found_in (p_name p) \<or> found_in (p_description p) \<or>
           list_ex (\<lambda>t. t \<in> set terms) (p_tags p)))"

definition find_products :: "env \<Rightarrow> query \<Rightarrow> Product list \<Rightarrow> Product list result" where
  "find_products w q ps =
     (case q_or q of
        None \<Rightarrow> Inr (find_all (matches q (\<lambda>s. True)) ps)
      | Some (search_regex, terms) \<Rightarrow>
          (case regex w search_regex of
             Inl e \<Rightarrow> Inl e
           | Inr found_in \<Rightarrow> Inr (find_all (matches q found_in) ps)))"

text \<open>
  \<open>limit\<close> is the query parameter \<^verbatim>\<open>limit: int = Query(20, le=100)\<close>: the route refuses
  an integer above 100 before it calls the handler, and checks nothing else.
  \<^verbatim>\<open>find(query).limit(limit).to_list(limit)\<close>: \<^verbatim>\<open>to_list\<close> raises \<^verbatim>\<open>ValueError\<close> for a negative
  length before the query is sent, and otherwise yields the first \<open>limit\<close> matches.
\<close>

definition get_products ::
  "env \<Rightarrow> db \<Rightarrow> string option \<Rightarrow> string option \<Rightarrow> int \<Rightarrow> Product list result \<times> db" where
  "get_products w d category search limit =
     (if 100 < limit then (Inl (RequestValidationError ''limit''), d)
      else except_500
        (case build_query w category search of
           Inl e \<Rightarrow> (Inl e, d)
         | Inr query \<Rightarrow>
             if limit < 0 then (Inl (ValueError ''length must be non-negative''), d)
             else (case find_products w query (products d) of
                     Inl e \<Rightarrow> (Inl e, d)
                   | Inr found \<Rightarrow> (Inr (take (nat limit) found), d))))"

definition get_product :: "db \<Rightarrow> string \<Rightarrow> Product result \<times> db" where
  "get_product d product_id =
     (case find_one (\<lambda>p. p_id p = product_id) (products d) of
        None \<Rightarrow> (Inl (HTTPException 404 (Text ''Product not found'')), d)
      | Some product \<Rightarrow> (Inr product, d))"

text \<open>
  The loop of \<^verbatim>\<open>get_recommendations\<close> over the categories, in the order returned. Each
  category goes into a pattern as it is; the database raises when it rejects the pattern,
  which ends the loop.
\<close>

fun recommend_loop ::
  "env \<Rightarrow> Product list \<Rightarrow> string list \<Rightarrow> Product list \<Rightarrow> Product list result" where
  "recommend_loop w ps [] recommended_products = Inr recommended_products"
| "recommend_loop w ps (category # rest) recommended_products =
     (case regex w (''(?i)'' @ category) of
        Inl e \<Rightarrow> Inl e
      | Inr found_in \<Rightarrow>
          (let found = take 2 (find_all (\<lambda>p. found_in (p_category p)) ps)
           in recommend_loop w ps rest (recommended_products @ found)))"

definition get_recommendations ::
  "env \<Rightarrow> db \<Rightarrow> string \<Rightarrow> (Product list \<times> string list) result \<times> db" where
  "get_recommendations w d user_id =
     except_500
       (case get_product_recommendations w d user_id None of
          Inl e \<Rightarrow> (Inl e, d)
        | Inr recommended_categories \<Rightarrow>
            (case recommend_loop w (products d) recommended_categories [] of
               Inl e \<Rightarrow> (Inl e, d)
             | Inr recommended_products \<Rightarrow>
                 (Inr (recommended_products, recommended_categories), d)))"

subsection \<open>Routes: cart\<close>

text \<open>
  The body of \<^verbatim>\<open>add_to_cart\<close> inside the \<^verbatim>\<open>try\<close>: it raises the 404 when the product is
  not found, adds the quantity to the first entry of the pair when there is one (the
  update addresses the entry by its id) and inserts a new \<^verbatim>\<open>CartItem\<close> otherwise. The
  update and the insertion raise when the quantity to be stored does not fit, and then
  store nothing.
\<close>

definition add_to_cart_body :: "env \<Rightarrow> db \<Rightarrow> CartItemCreate \<Rightarrow> CartItem result \<times> db" where
  "add_to_cart_body w d cart_item =
     (case find_one (\<lambda>p. p_id p = cc_product_id cart_item) (products d) of
        None \<Rightarrow> (Inl (HTTPException 404 (Text ''Product not found'')), d)
      | Some product \<Rightarrow>
          (case find_one (\<lambda>i. c_product_id i = cc_product_id cart_item \<and>
                               c_user_id i = cc_user_id cart_item) (cart d) of
             Some existing_item \<Rightarrow>
               (let new_quantity = c_quantity existing_item + cc_quantity cart_item
                in if bson_int new_quantity
                   then (Inr (CartItem_of (existing_item\<lparr>c_quantity := new_quantity\<rparr>)),
                         d\<lparr>cart := update_one (\<lambda>i. c_id i = c_id existing_item)
                                      (\<lambda>i. i\<lparr>c_quantity := new_quantity\<rparr>) (cart d)\<rparr>)
                   else (Inl int_overflow, d))
           | None \<Rightarrow>
               (let cart_item_obj =
                      \<lparr>c_id = uuid4 w 0, c_product_id = cc_product_id cart_item,
                       c_user_id = cc_user_id cart_item, c_quantity = cc_quantity cart_item,
                       c_added_at = utcnow w 0\<rparr>
                in if bson_int (c_quantity cart_item_obj)
                   then (Inr cart_item_obj,
                         d\<lparr>cart := insert_one (cart_document (object_id w 0) cart_item_obj)
                                      (cart d)\<rparr>)
                   else (Inl int_overflow, d))))"

definition add_to_cart :: "env \<Rightarrow> db \<Rightarrow> CartItemCreate \<Rightarrow> CartItem result \<times> db" where
  "add_to_cart w d cart_item = except_500 (add_to_cart_body w d cart_item)"

text \<open>
  The dictionary of a cart document, \<^verbatim>\<open>_id\<close> included, and \<^verbatim>\<open>Product(**product).dict()\<close>.
\<close>

definition cart_doc_dict :: "cart_doc \<Rightarrow> (string \<times> pyval) list" where
  "cart_doc_dict item =
     [(''_id'', PObjectId (c_oid item)), (''id'', PStr (c_id item)),
      (''product_id'', PStr (c_product_id item)), (''user_id'', PStr (c_user_id item)),
      (''quantity'', PInt (c_quantity item)), (''added_at'', PDatetime (c_added_at item))]"

definition product_dict :: "Product \<Rightarrow> pyval" where
  "product_dict p =
     PDict [(''id'', PStr (p_id p)), (''name'', PStr (p_name p)),
            (''description'', PStr (p_description p)), (''price'', PFloat (p_price p)),
            (''category'', PStr (p_category p)), (''image_url'', PStr (p_image_url p)),
            (''tags'', PList (map PStr (p_tags p))), (''in_stock'', PBool (p_in_stock p)),
            (''created_at'', PDatetime (p_created_at p))]"

text \<open>
  The loop of \<^verbatim>\<open>get_cart\<close>: an item whose product is found is appended as the document
  itself extended by the key \<^verbatim>\<open>product\<close>, an item whose product is not found is skipped.
\<close>

fun enrich_loop :: "Product list \<Rightarrow> cart_doc list \<Rightarrow> pyval list \<Rightarrow> pyval list" where
  "enrich_loop ps [] enriched_cart = enriched_cart"
| "enrich_loop ps (item # cart_items) enriched_cart =
     (case find_one (\<lambda>p. p_id p = c_product_id item) ps of
        None \<Rightarrow> enrich_loop ps cart_items enriched_cart
      | Some product \<Rightarrow>
          enrich_loop ps cart_items
            (enriched_cart @ [PDict (cart_doc_dict item @ [(''product'', product_dict product)])]))"

text \<open>The handler \<^verbatim>\<open>get_cart\<close>, and the route: the handler's value, encoded.\<close>

definition get_cart :: "db \<Rightarrow> string \<Rightarrow> pyval result \<times> db" where
  "get_cart d user_id =
     except_500
       (let cart_items = take 100 (find_all (\<lambda>i. c_user_id i = user_id) (cart d))
        in (Inr (PDict [(''cart_items'', PList (enrich_loop (products d) cart_items []))]), d))"

definition get_cart_route :: "db \<Rightarrow> string \<Rightarrow> pyval result \<times> db" where
  "get_cart_route d user_id = respond (get_cart d user_id)"

definition remove_from_cart :: "db \<Rightarrow> string \<Rightarrow> string result \<times> db" where
  "remove_from_cart d item_id =
     (case delete_one (\<lambda>i. c_id i = item_id) (cart d) of
        (cart', deleted_count) \<Rightarrow>
          if deleted_count = 0
          then (Inl (HTTPException 404 (Text ''Cart item not found'')), d\<lparr>cart := cart'\<rparr>)
          else (Inr ''Item removed from cart'', d\<lparr>cart := cart'\<rparr>))"

subsection \<open>Routes: chat\<close>

text \<open>The loop of \<^verbatim>\<open>chat_with_ai\<close> over the user's cart collects the product names.\<close>

fun context_loop :: "Product list \<Rightarrow> cart_doc list \<Rightarrow> string list \<Rightarrow> string list" where
  "context_loop ps [] context_items = context_items"
| "context_loop ps (item # user_cart) context_items =
     (case find_one (\<lambda>p. p_id p = c_product_id item) ps of
        None \<Rightarrow> context_loop ps user_cart context_items
      | Some product \<Rightarrow> context_loop ps user_cart (context_items @ [p_name product]))"

text \<open>
  The body is a JSON object whose values are arbitrary. \<open>turn_prompt\<close> is the first half
  of the handler: the two \<^verbatim>\<open>get\<close> calls, the cart lookup with the user id as the filter
  value, which raises when the database rejects that value, and the prompt built from the
  product names and the message as the f-string puts it.
\<close>

definition enhanced_prompt :: "Product list \<Rightarrow> cart_doc list \<Rightarrow> string \<Rightarrow> string" where
  "enhanced_prompt ps user_cart user_message_text =
     (let context_items = context_loop ps user_cart []
      in ''User's cart contains: ''
           @ (if context_items \<noteq> [] then str_join '', '' context_items else ''empty'')
           @ ''. User asks: '' @ user_message_text)"

definition turn_prompt :: "env \<Rightarrow> db \<Rightarrow> (string \<rightharpoonup> json) \<Rightarrow> string result" where
  "turn_prompt w d message =
     (let user_message = dict_get message ''message'' (JStr '''');
          user_id = dict_get message ''user_id'' (JStr ''anonymous'')
      in case user_id_filter w user_id of
           Inl e \<Rightarrow> Inl e
         | Inr is_user \<Rightarrow>
             (let user_cart = take 10 (find_all (\<lambda>i. is_user (c_user_id i)) (cart d))
              in Inr (enhanced_prompt (products d) user_cart (py_str w user_message))))"

text \<open>
  \<^verbatim>\<open>ChatMessage(user_id=user_id, message=user_message, response=response)\<close>: the constructor
  validates the two body values as texts and raises when one of them fails.
\<close>

definition new_chat_message :: "env \<Rightarrow> json \<Rightarrow> json \<Rightarrow> string \<Rightarrow> ChatMessage result" where
  "new_chat_message w user_id user_message response =
     (case str_field w user_id of
        None \<Rightarrow> Inl (ValidationError ''ChatMessage'')
      | Some uid \<Rightarrow>
          (case str_field w user_message of
             None \<Rightarrow> Inl (ValidationError ''ChatMessage'')
           | Some msg \<Rightarrow>
               Inr \<lparr>m_id = uuid4 w 0, m_user_id = uid, m_message = msg,
                    m_response = response, m_timestamp = utcnow w 0\<rparr>))"

definition chat_with_ai :: "env \<Rightarrow> db \<Rightarrow> (string \<rightharpoonup> json) \<Rightarrow> string result \<times> db" where
  "chat_with_ai w d message =
     except_500
       (let user_message = dict_get message ''message'' (JStr '''');
            user_id = dict_get message ''user_id'' (JStr ''anonymous'')
        in case turn_prompt w d message of
             Inl e \<Rightarrow> (Inl e, d)
           | Inr prompt \<Rightarrow>
               (case send_message w 0 prompt of
                  Inl e \<Rightarrow> (Inl e, d)
                | Inr response \<Rightarrow>
                    (case new_chat_message w user_id user_message response of
                       Inl e \<Rightarrow> (Inl e, d)
                     | Inr chat_record \<Rightarrow>
                         (Inr response,
                          d\<lparr>chat_history := insert_one chat_record (chat_history d)\<rparr>))))"

subsection \<open>Sequences of requests\<close>

text \<open>Requests served one after the other, each in its own environment.\<close>

fun add_requests :: "(env \<times> CartItemCreate) list \<Rightarrow> db \<Rightarrow> db" where
  "add_requests [] d = d"
| "add_requests ((w, cart_item) # rest) d = add_requests rest (snd (add_to_cart w d cart_item))"

fun seed_requests :: "env list \<Rightarrow> db \<Rightarrow> db" where
  "seed_requests [] d = d"
| "seed_requests (w # rest) d = seed_requests rest (snd (seed_products w d))"

subsection \<open>Concrete environments and stores\<close>

text \<open>
  Stand-ins on ASCII text, where they do what Python does: \<^verbatim>\<open>strip\<close> removes the ASCII
  white space of \<^verbatim>\<open>str.isspace\<close> and \<^verbatim>\<open>lower\<close> maps the letters A to Z.
\<close>

definition isspace :: "char \<Rightarrow> bool" where
  "isspace c = (c \<in> set [CHR '' '', CHR 0x09, CHR 0x0A, CHR 0x0B, CHR 0x0C, CHR 0x0D,
                          CHR 0x1C, CHR 0x1D, CHR 0x1E, CHR 0x1F])"

definition ascii_strip :: "string \<Rightarrow> string" where
  "ascii_strip s = rev (dropWhile isspace (rev (dropWhile isspace s)))"

definition lower_char :: "char \<Rightarrow> char" where
  "lower_char c =
     (case map_of (zip ''ABCDEFGHIJKLMNOPQRSTUVWXYZ'' ''abcdefghijklmnopqrstuvwxyz'') c of
        None \<Rightarrow> c
      | Some l \<Rightarrow> l)"

definition ascii_lower :: "string \<Rightarrow> string" where
  "ascii_lower s = map lower_char s"

text \<open>
  A stand-in for the database's pattern engine. It reads an alternation of branches
  \<^verbatim>\<open>(?i)text\<close> with literal texts: the pattern is found in a subject when one of the texts
  occurs in it, letter case ignored. It rejects every pattern that holds a character with
  a meaning of its own in a branch; the engine of the database rejects only the malformed
  ones among these, an unclosed parenthesis for instance.
\<close>

fun occurs_in :: "string \<Rightarrow> string \<Rightarrow> bool" where
  "occurs_in pat [] = (pat = [])"
| "occurs_in pat (c # cs) = (take (length pat) (c # cs) = pat \<or> occurs_in pat cs)"

definition metachar :: "char \<Rightarrow> bool" where
  "metachar c = (c \<in> set (CHR 0x5C # ''^$.?*+()[]{}''))"

definition literal_regex :: "string \<Rightarrow> (string \<Rightarrow> bool) result" where
  "literal_regex pat =
     (let branches = str_split (CHR ''|'') pat
      in if list_all (\<lambda>b. take 4 b = ''(?i)'' \<and> \<not> list_ex metachar (drop 4 b)) branches
         then Inr (\<lambda>s. list_ex (\<lambda>b. occurs_in (ascii_lower (drop 4 b)) (ascii_lower s)) branches)
         else Inl (OperationFailure ''Regular expression is invalid''))"

text \<open>
  A stand-in for the rest: a filter value that is not a text selects no cart entry, is
  put as \<^verbatim>\<open>None\<close> by an f-string and fails the validation of a \<^verbatim>\<open>str\<close> field. This is what
  happens to \<^verbatim>\<open>null\<close>, the only such value the concrete requests below use.
\<close>

definition env_reply :: "string \<Rightarrow> env" where
  "env_reply reply =
     \<lparr>send_message = (\<lambda>k prompt. Inr reply),
      uuid4 = (\<lambda>k. ''uuid-'' @ replicate (Suc k) (CHR ''a'')),
      utcnow = (\<lambda>k. 1000 + k),
      object_id = (\<lambda>k. 100 + k),
      regex = literal_regex,
      filter_value = (\<lambda>v. Inr (\<lambda>user_id. False)),
      str_strip = ascii_strip,
      str_lower = ascii_lower,
      format_value = (\<lambda>v. ''None''),
      coerce_str = (\<lambda>v. None)\<rparr>"

definition env_down :: env where
  "env_down =
     \<lparr>send_message = (\<lambda>k prompt. Inl (ProviderError ''provider unavailable'')),
      uuid4 = (\<lambda>k. ''uuid-'' @ replicate (Suc k) (CHR ''b'')),
      utcnow = (\<lambda>k. 2000 + k),
      object_id = (\<lambda>k. 200 + k),
      regex = literal_regex,
      filter_value = (\<lambda>v. Inr (\<lambda>user_id. False)),
      str_strip = ascii_strip,
      str_lower = ascii_lower,
      format_value = (\<lambda>v. ''None''),
      coerce_str = (\<lambda>v. None)\<rparr>"

definition widget :: Product where
  "widget =
     \<lparr>p_id = ''p-1'', p_name = ''Widget'', p_description = ''A useful widget'',
      p_price = 9.99, p_category = ''home'', p_image_url = ''https://example.com/widget.jpg'',
      p_tags = [''widget'', ''tool''], p_in_stock = True, p_created_at = 1\<rparr>"

definition widget_entry :: cart_doc where
  "widget_entry =
     \<lparr>c_id = ''c-1'', c_product_id = ''p-1'', c_user_id = ''alice'', c_quantity = 2,
      c_added_at = 5, c_oid = 11\<rparr>"

definition dangling_entry :: cart_doc where
  "dangling_entry =
     \<lparr>c_id = ''c-2'', c_product_id = ''p-gone'', c_user_id = ''alice'', c_quantity = 1,
      c_added_at = 6, c_oid = 12\<rparr>"

definition shop :: db where
  "shop = \<lparr>products = [widget], cart = [widget_entry, dangling_entry], chat_history = []\<rparr>"

definition empty_shop :: db where
  "empty_shop = \<lparr>products = [], cart = [], chat_history = []\<rparr>"

definition add_widget :: "string \<Rightarrow> int \<Rightarrow> CartItemCreate" where
  "add_widget user_id quantity =
     \<lparr>cc_product_id = ''p-1'', cc_user_id = user_id, cc_quantity = quantity\<rparr>"

section \<open>Properties\<close>

subsection \<open>Collection operations\<close>

lemma find_one_None_iff: "find_one P xs = None \<longleftrightarrow> (\<forall>x\<in>set xs. \<not> P x)"
  by (induction xs) auto

lemma find_one_SomeD: "find_one P xs = Some x \<Longrightarrow> x \<in> set xs \<and> P x"
  by (induction xs) (auto split: if_splits)

lemma find_one_absent: "k \<notin> f ` set xs \<Longrightarrow> find_one (\<lambda>x. f x = k) xs = None"
  by (induction xs) auto

lemma delete_one_no_match: "\<forall>x\<in>set xs. \<not> P x \<Longrightarrow> delete_one P xs = (xs, 0)"
  by (induction xs) auto

lemma delete_one_match: "\<exists>x\<in>set xs. P x \<Longrightarrow> snd (delete_one P xs) = 1"
proof (induction xs)
  case Nil
  then show ?case by simp
next
  case (Cons a xs)
  show ?case
  proof (cases "P a")
    case True
    then show ?thesis by simp
  next
    case False
    with Cons.prems have "\<exists>x\<in>set xs. P x" by auto
    then have "snd (delete_one P xs) = 1" by (rule Cons.IH)
    with False show ?thesis by (simp add: case_prod_unfold)
  qed
qed

lemma delete_one_removes:
  "distinct (map f xs) \<Longrightarrow> k \<notin> f ` set (fst (delete_one (\<lambda>x. f x = k) xs))"
proof (induction xs)
  case Nil
  then show ?case by simp
next
  case (Cons a xs)
  then show ?case by (auto simp: case_prod_unfold)
qed

subsection \<open>Unknown identifiers\<close>

text \<open>
  Claim C7. Fetching a product by an id that no product of the catalog has returns the
  404 "Product not found"; deleting a cart entry by an id that no entry of the cart has
  returns the 404 "Cart item not found" and leaves the database as it was. In a cart whose
  entries have distinct ids, a delete that succeeded makes the same delete, repeated,
  return that 404 with the database unchanged.
\<close>

theorem absent_ids_not_found:
  "(product_id \<notin> p_id ` set (products d) \<longrightarrow>
      get_product d product_id = (Inl (HTTPException 404 (Text ''Product not found'')), d)) \<and>
   (item_id \<notin> c_id ` set (cart d) \<longrightarrow>
      remove_from_cart d item_id = (Inl (HTTPException 404 (Text ''Cart item not found'')), d)) \<and>
   (distinct (map c_id (cart d)) \<and> item_id \<in> c_id ` set (cart d) \<longrightarrow>
      fst (remove_from_cart d item_id) = Inr ''Item removed from cart'' \<and>
      remove_from_cart (snd (remove_from_cart d item_id)) item_id =
        (Inl (HTTPException 404 (Text ''Cart item not found'')), snd (remove_from_cart d item_id)))"
proof -
  have g1: "get_product d product_id = (Inl (HTTPException 404 (Text ''Product not found'')), d)"
    if "product_id \<notin> p_id ` set (products d)"
  proof -
    from that have "find_one (\<lambda>p. p_id p = product_id) (products d) = None"
      by (rule find_one_absent)
    then show ?thesis by (simp add: get_product_def)
  qed
  have g2: "remove_from_cart d' item_id =
      (Inl (HTTPException 404 (Text ''Cart item not found'')), d')"
    if "item_id \<notin> c_id ` set (cart d')" for d'
  proof -
    from that have "delete_one (\<lambda>i. c_id i = item_id) (cart d') = (cart d', 0)"
      by (intro delete_one_no_match) auto
    then show ?thesis by (simp add: remove_from_cart_def)
  qed
  have g3: "fst (remove_from_cart d item_id) = Inr ''Item removed from cart'' \<and>
      remove_from_cart (snd (remove_from_cart d item_id)) item_id =
        (Inl (HTTPException 404 (Text ''Cart item not found'')), snd (remove_from_cart d item_id))"
    if a: "distinct (map c_id (cart d)) \<and> item_id \<in> c_id ` set (cart d)"
  proof -
    obtain cart' n where del: "delete_one (\<lambda>i. c_id i = item_id) (cart d) = (cart', n)"
      by (cases "delete_one (\<lambda>i. c_id i = item_id) (cart d)")
    from a have "snd (delete_one (\<lambda>i. c_id i = item_id) (cart d)) = 1"
      by (intro delete_one_match) auto
    with del have n: "n = 1" by simp
    from a have "item_id \<notin> c_id ` set (fst (delete_one (\<lambda>i. c_id i = item_id) (cart d)))"
      by (intro delete_one_removes) simp
    with del have gone: "item_id \<notin> c_id ` set (cart (d\<lparr>cart := cart'\<rparr>))" by simp
    have after: "remove_from_cart d item_id = (Inr ''Item removed from cart'', d\<lparr>cart := cart'\<rparr>)"
      using del n by (simp add: remove_from_cart_def)
    from g2 [OF gone] after show ?thesis by simp
  qed
  from g1 g2 [of d] g3 show ?thesis by blast
qed

text \<open>The definitions of the concrete stores, for evaluation.\<close>

lemmas demo_defs = shop_def widget_def widget_entry_def dangling_entry_def empty_shop_def
  add_widget_def

theorem absent_ids_not_found_witness:
  "''p-9'' \<notin> p_id ` set (products shop) \<and>
   get_product shop ''p-9'' = (Inl (HTTPException 404 (Text ''Product not found'')), shop) \<and>
   ''c-9'' \<notin> c_id ` set (cart shop) \<and>
   remove_from_cart shop ''c-9'' = (Inl (HTTPException 404 (Text ''Cart item not found'')), shop) \<and>
   distinct (map c_id (cart shop)) \<and> ''c-1'' \<in> c_id ` set (cart shop) \<and>
   fst (remove_from_cart shop ''c-1'') = Inr ''Item removed from cart'' \<and>
   remove_from_cart (snd (remove_from_cart shop ''c-1'')) ''c-1'' =
     (Inl (HTTPException 404 (Text ''Cart item not found'')), snd (remove_from_cart shop ''c-1''))"
proof -
  have h1: "''p-9'' \<notin> p_id ` set (products shop)" by (simp add: demo_defs)
  have h2: "''c-9'' \<notin> c_id ` set (cart shop)" by (simp add: demo_defs)
  have h3: "distinct (map c_id (cart shop)) \<and> ''c-1'' \<in> c_id ` set (cart shop)"
    by (simp add: demo_defs)
  from absent_ids_not_found [of "''p-9''" shop "''c-9''"] h1 h2
  have a: "get_product shop ''p-9'' = (Inl (HTTPException 404 (Text ''Product not found'')), shop) \<and>
    remove_from_cart shop ''c-9'' = (Inl (HTTPException 404 (Text ''Cart item not found'')), shop)"
    by blast
  from absent_ids_not_found [of "''p-9''" shop "''c-1''"] h3
  have b: "fst (remove_from_cart shop ''c-1'') = Inr ''Item removed from cart'' \<and>
   remove_from_cart (snd (remove_from_cart shop ''c-1'')) ''c-1'' =
     (Inl (HTTPException 404 (Text ''Cart item not found'')), snd (remove_from_cart shop ''c-1''))"
    by blast
  from h1 h2 h3 a b show ?thesis by blast
qed

text \<open>
  Claim C2. An add-to-cart request for a product id that is not in the catalog raises the
  404 inside the \<^verbatim>\<open>try\<close> block of the handler, whose \<^verbatim>\<open>except Exception\<close> clause catches it:
  the caller receives status 500, not 404. The database is unchanged. Evaluated on the
  store \<open>shop\<close> and the product id \<^verbatim>\<open>p-9\<close>:
\<close>

theorem add_unknown_product_500:
  "add_to_cart (env_reply '''') shop
      \<lparr>cc_product_id = ''p-9'', cc_user_id = ''alice'', cc_quantity = 1\<rparr> =
     (Inl (HTTPException 500 (Str (HTTPException 404 (Text ''Product not found'')))), shop)"
  by (simp add: add_to_cart_def add_to_cart_body_def demo_defs)

text \<open>The same for every request with an unknown product id.\<close>

lemma add_to_cart_unknown_product:
  "cc_product_id cart_item \<notin> p_id ` set (products d) \<Longrightarrow>
   add_to_cart w d cart_item =
     (Inl (HTTPException 500 (Str (HTTPException 404 (Text ''Product not found'')))), d)"
proof -
  assume "cc_product_id cart_item \<notin> p_id ` set (products d)"
  then have "find_one (\<lambda>p. p_id p = cc_product_id cart_item) (products d) = None"
    by (rule find_one_absent)
  then show ?thesis by (simp add: add_to_cart_def add_to_cart_body_def)
qed

subsection \<open>Adding to the cart\<close>

lemma find_one_key_Some: "find_one (\<lambda>x. f x = k) xs = Some x \<Longrightarrow> k \<in> f ` set xs"
  by (induction xs) (auto split: if_splits)

lemma find_one_present: "k \<in> f ` set xs \<Longrightarrow> \<exists>x. find_one (\<lambda>x. f x = k) xs = Some x"
  by (induction xs) auto

lemma find_one_filter:
  "find_one P xs = (case filter P xs of [] \<Rightarrow> None | x # ys \<Rightarrow> Some x)"
  by (induction xs) auto

lemma update_one_single:
  "filter P xs = [e] \<Longrightarrow> update_one P f xs = map (\<lambda>x. if P x then f x else x) xs"
proof (induction xs)
  case Nil
  then show ?case by simp
next
  case (Cons a xs)
  show ?case
  proof (cases "P a")
    case True
    with Cons.prems have "filter P xs = []" by simp
    then have "\<forall>x\<in>set xs. \<not> P x" by (simp add: filter_empty_conv)
    then have "map (\<lambda>x. if P x then f x else x) xs = xs" by (simp add: map_idI)
    with True show ?thesis by simp
  next
    case False
    with Cons show ?thesis by simp
  qed
qed

lemma distinct_filter_single:
  "distinct (map f xs) \<Longrightarrow> e \<in> set xs \<Longrightarrow> filter (\<lambda>x. f x = f e) xs = [e]"
proof (induction xs)
  case Nil
  then show ?case by simp
next
  case (Cons a xs)
  show ?case
  proof (cases "a = e")
    case True
    with Cons.prems have "f e \<notin> f ` set xs" by simp
    then have "\<forall>x\<in>set xs. f x \<noteq> f e" by (metis imageI)
    then have "filter (\<lambda>x. f x = f e) xs = []" by (simp add: filter_empty_conv)
    with True show ?thesis by simp
  next
    case False
    with Cons.prems have "e \<in> set xs" and "f a \<noteq> f e" by auto
    with Cons show ?thesis by simp
  qed
qed

lemma add_to_cart_products: "products (snd (add_to_cart w d cart_item)) = products d"
  by (simp add: add_to_cart_def add_to_cart_body_def Let_def split: option.splits)

lemma add_to_cart_chat_history:
  "chat_history (snd (add_to_cart w d cart_item)) = chat_history d"
  by (simp add: add_to_cart_def add_to_cart_body_def Let_def split: option.splits)

lemma add_to_cart_new:
  assumes "cc_product_id cart_item \<in> p_id ` set (products d)"
    and "filter (\<lambda>i. c_product_id i = cc_product_id cart_item \<and>
                       c_user_id i = cc_user_id cart_item) (cart d) = []"
    and "bson_int (cc_quantity cart_item)"
  shows "cart (snd (add_to_cart w d cart_item)) =
           cart d @ [\<lparr>c_id = uuid4 w 0, c_product_id = cc_product_id cart_item,
                      c_user_id = cc_user_id cart_item, c_quantity = cc_quantity cart_item,
                      c_added_at = utcnow w 0, c_oid = object_id w 0\<rparr>]"
proof -
  from assms(1) obtain product where
    "find_one (\<lambda>p. p_id p = cc_product_id cart_item) (products d) = Some product"
    using find_one_present by fastforce
  moreover from assms(2) have
    "find_one (\<lambda>i. c_product_id i = cc_product_id cart_item \<and>
                    c_user_id i = cc_user_id cart_item) (cart d) = None"
    by (simp add: find_one_filter)
  ultimately show ?thesis
    using assms(3)
    by (simp add: add_to_cart_def add_to_cart_body_def insert_one_def cart_document_def Let_def)
qed

lemma add_to_cart_existing:
  assumes "cc_product_id cart_item \<in> p_id ` set (products d)"
    and "find_one (\<lambda>i. c_product_id i = cc_product_id cart_item \<and>
                         c_user_id i = cc_user_id cart_item) (cart d) = Some e"
    and "filter (\<lambda>i. c_id i = c_id e) (cart d) = [e]"
    and "bson_int (c_quantity e + cc_quantity cart_item)"
  shows "cart (snd (add_to_cart w d cart_item)) =
           map (\<lambda>x. if c_id x = c_id e
                     then x\<lparr>c_quantity := c_quantity e + cc_quantity cart_item\<rparr> else x) (cart d)"
proof -
  from assms(1) obtain product where
    "find_one (\<lambda>p. p_id p = cc_product_id cart_item) (products d) = Some product"
    using find_one_present by fastforce
  with assms(2,4) have "cart (snd (add_to_cart w d cart_item)) =
      update_one (\<lambda>i. c_id i = c_id e)
        (\<lambda>i. i\<lparr>c_quantity := c_quantity e + cc_quantity cart_item\<rparr>) (cart d)"
    by (simp add: add_to_cart_def add_to_cart_body_def Let_def)
  also have "\<dots> = map (\<lambda>x. if c_id x = c_id e
                     then x\<lparr>c_quantity := c_quantity e + cc_quantity cart_item\<rparr> else x) (cart d)"
    using assms(3) by (rule update_one_single)
  finally show ?thesis .
qed

text \<open>A sum that does not fit is not stored: the request fails and changes nothing.\<close>

lemma add_to_cart_overflow:
  assumes "find_one (\<lambda>i. c_product_id i = cc_product_id cart_item \<and>
                         c_user_id i = cc_user_id cart_item) (cart d) = Some e"
    and "\<not> bson_int (c_quantity e + cc_quantity cart_item)"
  shows "snd (add_to_cart w d cart_item) = d \<and> isl (fst (add_to_cart w d cart_item))"
  using assms
  by (simp add: add_to_cart_def add_to_cart_body_def Let_def split: option.splits)

text \<open>
  The ids of the cart entries stay distinct when the generated id is new, which is what
  \<^verbatim>\<open>uuid4\<close> is for.
\<close>

lemma add_to_cart_distinct_ids:
  assumes "distinct (map c_id (cart d))" and "uuid4 w 0 \<notin> c_id ` set (cart d)"
  shows "distinct (map c_id (cart (snd (add_to_cart w d cart_item))))"
proof (cases "find_one (\<lambda>p. p_id p = cc_product_id cart_item) (products d)")
  case None
  with assms(1) show ?thesis by (simp add: add_to_cart_def add_to_cart_body_def)
next
  case prod: (Some product)
  then have known: "cc_product_id cart_item \<in> p_id ` set (products d)"
    by (rule find_one_key_Some)
  show ?thesis
  proof (cases "find_one (\<lambda>i. c_product_id i = cc_product_id cart_item \<and>
                                c_user_id i = cc_user_id cart_item) (cart d)")
    case None
    with prod assms show ?thesis
      by (simp add: add_to_cart_def add_to_cart_body_def insert_one_def cart_document_def Let_def)
  next
    case (Some e)
    show ?thesis
    proof (cases "bson_int (c_quantity e + cc_quantity cart_item)")
      case True
      from Some have "e \<in> set (cart d)" by (auto dest: find_one_SomeD)
      with assms(1) have "filter (\<lambda>i. c_id i = c_id e) (cart d) = [e]"
        by (rule distinct_filter_single)
      from add_to_cart_existing [OF known Some this True]
      have "map c_id (cart (snd (add_to_cart w d cart_item))) = map c_id (cart d)"
        by (simp add: comp_def if_distrib cong: if_cong)
      with assms(1) show ?thesis by simp
    next
      case False
      with Some assms(1) show ?thesis by (simp add: add_to_cart_overflow)
    qed
  qed
qed

text \<open>
  Claim C8. In a cart whose entries have distinct ids, an add-to-cart request for a pair
  that has an entry \<open>e\<close> changes the quantity field of \<open>e\<close> and nothing else: the cart
  afterwards is the cart before with \<open>e\<close> replaced by \<open>e\<close> with the request's quantity
  added (when the product is not in the catalog, or the sum does not fit a stored integer,
  the request fails and the cart is as before); ids, product ids, user ids, timestamps and
  \<^verbatim>\<open>_id\<close>s of all entries are as before, and so are the products and the chat history.
\<close>

theorem add_existing_changes_quantity_only:
  assumes "distinct (map c_id (cart d))"
    and "find_one (\<lambda>i. c_product_id i = cc_product_id cart_item \<and>
                         c_user_id i = cc_user_id cart_item) (cart d) = Some e"
  shows "products (snd (add_to_cart w d cart_item)) = products d \<and>
         chat_history (snd (add_to_cart w d cart_item)) = chat_history d \<and>
         cart (snd (add_to_cart w d cart_item)) =
           (if cc_product_id cart_item \<in> p_id ` set (products d) \<and>
               bson_int (c_quantity e + cc_quantity cart_item)
            then map (\<lambda>x. if x = e
                           then x\<lparr>c_quantity := c_quantity x + cc_quantity cart_item\<rparr>
                           else x) (cart d)
            else cart d) \<and>
         map c_id (cart (snd (add_to_cart w d cart_item))) = map c_id (cart d) \<and>
         map c_product_id (cart (snd (add_to_cart w d cart_item))) = map c_product_id (cart d) \<and>
         map c_user_id (cart (snd (add_to_cart w d cart_item))) = map c_user_id (cart d) \<and>
         map c_added_at (cart (snd (add_to_cart w d cart_item))) = map c_added_at (cart d) \<and>
         map c_oid (cart (snd (add_to_cart w d cart_item))) = map c_oid (cart d)"
proof -
  let ?d' = "snd (add_to_cart w d cart_item)"
  let ?upd = "\<lambda>x. if x = e then x\<lparr>c_quantity := c_quantity x + cc_quantity cart_item\<rparr> else x"
  let ?ok = "cc_product_id cart_item \<in> p_id ` set (products d) \<and>
               bson_int (c_quantity e + cc_quantity cart_item)"
  from assms(2) have e_in: "e \<in> set (cart d)" by (auto dest: find_one_SomeD)
  with assms(1) have single: "filter (\<lambda>i. c_id i = c_id e) (cart d) = [e]"
    by (rule distinct_filter_single)
  have same: "x = e" if "x \<in> set (cart d)" and "c_id x = c_id e" for x
  proof -
    from that have "x \<in> set (filter (\<lambda>i. c_id i = c_id e) (cart d))" by simp
    with single show ?thesis by simp
  qed
  have cart_eq: "cart ?d' = (if ?ok then map ?upd (cart d) else cart d)"
  proof (cases "cc_product_id cart_item \<in> p_id ` set (products d)")
    case known: True
    show ?thesis
    proof (cases "bson_int (c_quantity e + cc_quantity cart_item)")
      case True
      from add_to_cart_existing [OF known assms(2) single True]
      have "cart ?d' = map (\<lambda>x. if c_id x = c_id e
                     then x\<lparr>c_quantity := c_quantity e + cc_quantity cart_item\<rparr> else x) (cart d)" .
      also have "\<dots> = map ?upd (cart d)"
        by (rule map_cong) (auto dest: same)
      finally show ?thesis using known True by simp
    next
      case False
      with assms(2) show ?thesis by (simp add: add_to_cart_overflow)
    qed
  next
    case False
    then show ?thesis by (simp add: add_to_cart_unknown_product)
  qed
  have fields: "map c_id (map ?upd xs) = map c_id xs \<and>
      map c_product_id (map ?upd xs) = map c_product_id xs \<and>
      map c_user_id (map ?upd xs) = map c_user_id xs \<and>
      map c_added_at (map ?upd xs) = map c_added_at xs \<and>
      map c_oid (map ?upd xs) = map c_oid xs" for xs
    by (induction xs) auto
  from cart_eq fields [of "cart d"] show ?thesis
    by (simp add: add_to_cart_products add_to_cart_chat_history)
qed

theorem add_existing_changes_quantity_only_witness:
  "distinct (map c_id (cart shop)) \<and>
   find_one (\<lambda>i. c_product_id i = cc_product_id (add_widget ''alice'' 3) \<and>
                  c_user_id i = cc_user_id (add_widget ''alice'' 3)) (cart shop) = Some widget_entry \<and>
   products (snd (add_to_cart (env_reply '''') shop (add_widget ''alice'' 3))) = [widget] \<and>
   cart (snd (add_to_cart (env_reply '''') shop (add_widget ''alice'' 3))) =
     [widget_entry\<lparr>c_quantity := 5\<rparr>, dangling_entry]"
proof -
  have h1: "distinct (map c_id (cart shop))" by (simp add: demo_defs)
  have h2: "find_one (\<lambda>i. c_product_id i = cc_product_id (add_widget ''alice'' 3) \<and>
                  c_user_id i = cc_user_id (add_widget ''alice'' 3)) (cart shop) = Some widget_entry"
    by (simp add: demo_defs)
  from add_existing_changes_quantity_only [OF h1 h2, of "env_reply ''''"] h1 h2
  show ?thesis by (simp add: demo_defs bson_int_def)
qed

text \<open>
  Requests with positive quantities for a pair whose single entry \<open>e\<close> has an id of its
  own add up on \<open>e\<close>, as long as the sum fits.
\<close>

lemma add_requests_existing:
  assumes "p \<in> p_id ` set (products d)"
    and "\<forall>r\<in>set reqs. cc_product_id (snd r) = p \<and> cc_user_id (snd r) = u \<and> 0 < cc_quantity (snd r)"
    and "filter (\<lambda>i. c_product_id i = p \<and> c_user_id i = u) (cart d) = [e]"
    and "filter (\<lambda>i. c_id i = c_id e) (cart d) = [e]"
    and "0 < c_quantity e"
    and "c_quantity e + sum_list (map (\<lambda>r. cc_quantity (snd r)) reqs) < 2 ^ 63"
  shows "\<exists>e'. filter (\<lambda>i. c_product_id i = p \<and> c_user_id i = u) (cart (add_requests reqs d)) = [e'] \<and>
              c_quantity e' = c_quantity e + sum_list (map (\<lambda>r. cc_quantity (snd r)) reqs)"
  using assms
proof (induction reqs arbitrary: d e)
  case Nil
  then show ?case by simp
next
  case (Cons r reqs)
  obtain w cart_item where r: "r = (w, cart_item)" by (cases r)
  let ?d' = "snd (add_to_cart w d cart_item)"
  let ?e' = "e\<lparr>c_quantity := c_quantity e + cc_quantity cart_item\<rparr>"
  let ?upd = "\<lambda>x. if c_id x = c_id e
                 then x\<lparr>c_quantity := c_quantity e + cc_quantity cart_item\<rparr> else x"
  from Cons.prems(2) r have pu: "cc_product_id cart_item = p" "cc_user_id cart_item = u"
    and pos: "0 < cc_quantity cart_item"
    by simp_all
  from Cons.prems(2) have rest: "\<forall>r\<in>set reqs. cc_product_id (snd r) = p \<and>
      cc_user_id (snd r) = u \<and> 0 < cc_quantity (snd r)"
    by simp
  then have "\<forall>q\<in>set (map (\<lambda>r. cc_quantity (snd r)) reqs). 0 \<le> q" by auto
  then have nonneg: "0 \<le> sum_list (map (\<lambda>r. cc_quantity (snd r)) reqs)"
    by (intro sum_list_nonneg) auto
  from Cons.prems(6) r have bound: "c_quantity e + cc_quantity cart_item +
      sum_list (map (\<lambda>r. cc_quantity (snd r)) reqs) < 2 ^ 63"
    by (simp add: add.assoc)
  with nonneg pos Cons.prems(5) have fits: "bson_int (c_quantity e + cc_quantity cart_item)"
    by (simp add: bson_int_def)
  from Cons.prems(3) have found: "find_one (\<lambda>i. c_product_id i = cc_product_id cart_item \<and>
      c_user_id i = cc_user_id cart_item) (cart d) = Some e"
    by (simp add: find_one_filter pu)
  from Cons.prems(1) pu have known: "cc_product_id cart_item \<in> p_id ` set (products d)"
    by simp
  have cart': "cart ?d' = map ?upd (cart d)"
    using known found Cons.prems(4) fits by (rule add_to_cart_existing)
  have "filter (\<lambda>i. c_product_id i = p \<and> c_user_id i = u) (cart ?d') =
      map ?upd (filter (\<lambda>i. c_product_id i = p \<and> c_user_id i = u) (cart d))"
    unfolding cart' filter_map by (rule arg_cong [where f = "map ?upd"], rule filter_cong) auto
  with Cons.prems(3) have one: "filter (\<lambda>i. c_product_id i = p \<and> c_user_id i = u) (cart ?d') = [?e']"
    by simp
  have "filter (\<lambda>i. c_id i = c_id ?e') (cart ?d') =
      map ?upd (filter (\<lambda>i. c_id i = c_id e) (cart d))"
    unfolding cart' filter_map by (rule arg_cong [where f = "map ?upd"], rule filter_cong) auto
  with Cons.prems(4) have uniq: "filter (\<lambda>i. c_id i = c_id ?e') (cart ?d') = [?e']"
    by simp
  from Cons.prems(1) have prod': "p \<in> p_id ` set (products ?d')"
    by (simp add: add_to_cart_products)
  from pos Cons.prems(5) have pos': "0 < c_quantity ?e'" by simp
  from bound have bound': "c_quantity ?e' + sum_list (map (\<lambda>r. cc_quantity (snd r)) reqs) < 2 ^ 63"
    by simp
  from Cons.IH [OF prod' rest one uniq pos' bound'] r show ?case
    by (simp add: add.assoc)
qed

text \<open>
  Claim C1, as the code has it. For a product \<open>p\<close> of the catalog and a user \<open>u\<close>, starting
  from a cart with no entry for the pair, a non-empty sequence of add-to-cart requests for
  the pair with positive quantities whose sum is below \<open>2 ^ 63\<close>, the first of which draws
  an id that no cart entry has, leaves exactly one entry for the pair, and its quantity is
  the sum of the requested quantities.
\<close>

theorem repeated_add_sums_quantities:
  assumes "p \<in> p_id ` set (products d)"
    and "find_all (\<lambda>i. c_product_id i = p \<and> c_user_id i = u) (cart d) = []"
    and "reqs \<noteq> []"
    and "\<forall>r\<in>set reqs. cc_product_id (snd r) = p \<and> cc_user_id (snd r) = u \<and>
                        0 < cc_quantity (snd r)"
    and "sum_list (map (\<lambda>r. cc_quantity (snd r)) reqs) < 2 ^ 63"
    and "uuid4 (fst (hd reqs)) 0 \<notin> c_id ` set (cart d)"
  shows "\<exists>e. find_all (\<lambda>i. c_product_id i = p \<and> c_user_id i = u)
                (cart (add_requests reqs d)) = [e] \<and>
             c_quantity e = sum_list (map (\<lambda>r. cc_quantity (snd r)) reqs)"
proof -
  from assms(3) obtain w cart_item rest where reqs: "reqs = (w, cart_item) # rest"
    by (cases reqs) auto
  let ?d' = "snd (add_to_cart w d cart_item)"
  let ?new = "\<lparr>c_id = uuid4 w 0, c_product_id = cc_product_id cart_item,
               c_user_id = cc_user_id cart_item, c_quantity = cc_quantity cart_item,
               c_added_at = utcnow w 0, c_oid = object_id w 0\<rparr>"
  from assms(4) reqs have pu: "cc_product_id cart_item = p" "cc_user_id cart_item = u"
    and pos: "0 < cc_quantity cart_item"
    by simp_all
  from assms(4) reqs have rest: "\<forall>r\<in>set rest. cc_product_id (snd r) = p \<and>
      cc_user_id (snd r) = u \<and> 0 < cc_quantity (snd r)"
    by simp
  then have "\<forall>q\<in>set (map (\<lambda>r. cc_quantity (snd r)) rest). 0 \<le> q" by auto
  then have nonneg: "0 \<le> sum_list (map (\<lambda>r. cc_quantity (snd r)) rest)"
    by (intro sum_list_nonneg) auto
  from assms(5) reqs have bound: "cc_quantity cart_item +
      sum_list (map (\<lambda>r. cc_quantity (snd r)) rest) < 2 ^ 63"
    by simp
  with nonneg pos have fits: "bson_int (cc_quantity cart_item)"
    by (simp add: bson_int_def)
  from assms(2) have none: "filter (\<lambda>i. c_product_id i = cc_product_id cart_item \<and>
      c_user_id i = cc_user_id cart_item) (cart d) = []"
    by (simp add: find_all_def pu)
  from assms(1) pu have known: "cc_product_id cart_item \<in> p_id ` set (products d)"
    by simp
  have cart': "cart ?d' = cart d @ [?new]"
    using known none fits by (rule add_to_cart_new)
  from assms(2) have one: "filter (\<lambda>i. c_product_id i = p \<and> c_user_id i = u) (cart ?d') = [?new]"
    by (simp add: cart' find_all_def pu)
  from assms(6) reqs have "\<forall>x\<in>set (cart d). c_id x \<noteq> uuid4 w 0"
    by (metis fst_conv imageI list.sel(1))
  then have "filter (\<lambda>i. c_id i = uuid4 w 0) (cart d) = []"
    by (simp add: filter_empty_conv)
  then have uniq: "filter (\<lambda>i. c_id i = c_id ?new) (cart ?d') = [?new]"
    by (simp add: cart')
  from assms(1) have prod': "p \<in> p_id ` set (products ?d')"
    by (simp add: add_to_cart_products)
  from pos have pos': "0 < c_quantity ?new" by simp
  from bound have bound': "c_quantity ?new + sum_list (map (\<lambda>r. cc_quantity (snd r)) rest) < 2 ^ 63"
    by simp
  from add_requests_existing [OF prod' rest one uniq pos' bound'] reqs show ?thesis
    by (simp add: find_all_def)
qed

theorem repeated_add_sums_quantities_witness:
  "''p-1'' \<in> p_id ` set (products shop) \<and>
   find_all (\<lambda>i. c_product_id i = ''p-1'' \<and> c_user_id i = ''bob'') (cart shop) = [] \<and>
   [(env_reply ''a'', add_widget ''bob'' 2), (env_reply ''b'', add_widget ''bob'' 3)] \<noteq> [] \<and>
   uuid4 (env_reply ''a'') 0 \<notin> c_id ` set (cart shop) \<and>
   (\<exists>e. find_all (\<lambda>i. c_product_id i = ''p-1'' \<and> c_user_id i = ''bob'')
           (cart (add_requests
              [(env_reply ''a'', add_widget ''bob'' 2), (env_reply ''b'', add_widget ''bob'' 3)]
              shop)) = [e] \<and>
        c_quantity e = 5)"
proof -
  let ?reqs = "[(env_reply ''a'', add_widget ''bob'' 2), (env_reply ''b'', add_widget ''bob'' 3)]"
  have h1: "''p-1'' \<in> p_id ` set (products shop)" by (simp add: demo_defs)
  have h2: "find_all (\<lambda>i. c_product_id i = ''p-1'' \<and> c_user_id i = ''bob'') (cart shop) = []"
    by (simp add: demo_defs find_all_def)
  have h3: "?reqs \<noteq> []" by simp
  have h4: "\<forall>r\<in>set ?reqs. cc_product_id (snd r) = ''p-1'' \<and> cc_user_id (snd r) = ''bob'' \<and>
      0 < cc_quantity (snd r)"
    by (simp add: demo_defs)
  have h5: "sum_list (map (\<lambda>r. cc_quantity (snd r)) ?reqs) < 2 ^ 63"
    by (simp add: demo_defs)
  have h6: "uuid4 (fst (hd ?reqs)) 0 \<notin> c_id ` set (cart shop)"
    by (simp add: demo_defs env_reply_def)
  from repeated_add_sums_quantities [OF h1 h2 h3 h4 h5 h6] h1 h2 h6
  show ?thesis by (simp add: demo_defs)
qed

text \<open>
  Claim C1 as stated holds for all positive quantities. Two requests for the pair of
  \<^verbatim>\<open>bob\<close> and the product \<^verbatim>\<open>p-1\<close>, each with the quantity \<open>2 ^ 62\<close>: the second one is
  answered by a 500, and the entry keeps the quantity \<open>2 ^ 62\<close>, which is not the sum.
\<close>

theorem repeated_add_overflow_counterexample:
  "cart (add_requests
           [(env_reply ''a'', add_widget ''bob'' 4611686018427387904),
            (env_reply ''b'', add_widget ''bob'' 4611686018427387904)] shop) =
     [widget_entry, dangling_entry,
      \<lparr>c_id = ''uuid-a'', c_product_id = ''p-1'', c_user_id = ''bob'',
       c_quantity = 4611686018427387904, c_added_at = 1000, c_oid = 100\<rparr>] \<and>
   sum_list [4611686018427387904, 4611686018427387904] \<noteq> (4611686018427387904 :: int) \<and>
   fst (add_to_cart (env_reply ''b'')
          (snd (add_to_cart (env_reply ''a'') shop (add_widget ''bob'' 4611686018427387904)))
          (add_widget ''bob'' 4611686018427387904)) =
     Inl (HTTPException 500 (Str int_overflow))"
  by (simp add: add_to_cart_def add_to_cart_body_def demo_defs env_reply_def bson_int_def
        insert_one_def cart_document_def Let_def)

subsection \<open>Listing the cart\<close>

text \<open>
  The value \<^verbatim>\<open>get_cart\<close> returns can be encoded exactly when it lists no entry, since
  every entry it lists carries the \<^verbatim>\<open>_id\<close> of its document.
\<close>

lemma jsonable_product_dict: "jsonable (product_dict p)"
  by (simp add: product_dict_def list_all_iff)

lemma enrich_loop_jsonable:
  "jsonable (PList (enrich_loop ps items acc)) \<longleftrightarrow>
     jsonable (PList acc) \<and> (\<forall>item\<in>set items. c_product_id item \<notin> p_id ` set ps)"
proof (induction items arbitrary: acc)
  case Nil
  then show ?case by simp
next
  case (Cons item items)
  show ?case
  proof (cases "find_one (\<lambda>p. p_id p = c_product_id item) ps")
    case None
    then have "c_product_id item \<notin> p_id ` set ps"
      using find_one_present [of "c_product_id item" p_id ps] by auto
    with None Cons.IH show ?thesis by simp
  next
    case (Some product)
    then have "c_product_id item \<in> p_id ` set ps" by (rule find_one_key_Some)
    with Some Cons.IH show ?thesis by (simp add: cart_doc_dict_def)
  qed
qed

lemma enrich_loop_unresolved:
  "\<forall>item\<in>set items. c_product_id item \<notin> p_id ` set ps \<Longrightarrow> enrich_loop ps items acc = acc"
proof (induction items)
  case Nil
  then show ?case by simp
next
  case (Cons item items)
  then have "find_one (\<lambda>p. p_id p = c_product_id item) ps = None"
    by (simp add: find_one_absent)
  with Cons show ?case by simp
qed

lemma get_cart_unchanged: "snd (get_cart d user_id) = d \<and> snd (get_cart_route d user_id) = d"
  by (simp add: get_cart_route_def get_cart_def Let_def)

lemma get_cart_route_cases:
  "get_cart_route d user_id =
     (if \<forall>item\<in>set (take 100 (find_all (\<lambda>i. c_user_id i = user_id) (cart d))).
            c_product_id item \<notin> p_id ` set (products d)
      then (Inr (PDict [(''cart_items'', PList [])]), d)
      else (Inl (ValueError ''ObjectId is not JSON serializable''), d))"
proof -
  let ?items = "take 100 (find_all (\<lambda>i. c_user_id i = user_id) (cart d))"
  have val: "get_cart d user_id =
      (Inr (PDict [(''cart_items'', PList (enrich_loop (products d) ?items []))]), d)"
    by (simp add: get_cart_def)
  have js: "jsonable (PDict [(''cart_items'', PList (enrich_loop (products d) ?items []))]) \<longleftrightarrow>
      (\<forall>item\<in>set ?items. c_product_id item \<notin> p_id ` set (products d))"
    using enrich_loop_jsonable [of "products d" ?items "[]"] by simp
  show ?thesis
  proof (cases "\<forall>item\<in>set ?items. c_product_id item \<notin> p_id ` set (products d)")
    case True
    then have "enrich_loop (products d) ?items [] = []" by (rule enrich_loop_unresolved)
    with True show ?thesis by (simp add: get_cart_route_def val)
  next
    case False
    with js show ?thesis by (simp add: get_cart_route_def val del: jsonable.simps)
  qed
qed

text \<open>
  Claim C9. The handler \<^verbatim>\<open>get_cart\<close> skips the entry of \<^verbatim>\<open>alice\<close> whose product is missing
  and returns her other entry with its product, as the claim says, and leaves the database
  as it was. The entry is returned as the raw document, with its \<^verbatim>\<open>_id\<close>, so the route
  \<^verbatim>\<open>GET /cart/alice\<close> cannot encode the value: the client receives a 500 and no list.
\<close>

theorem get_cart_route_fails_on_resolvable_entry:
  "get_cart_route shop ''alice'' = (Inl (ValueError ''ObjectId is not JSON serializable''), shop) \<and>
   status_of (fst (get_cart_route shop ''alice'')) = 500 \<and>
   get_cart shop ''alice'' =
     (Inr (PDict [(''cart_items'',
             PList [PDict (cart_doc_dict widget_entry @ [(''product'', product_dict widget)])])]),
      shop)"
proof -
  have val: "get_cart shop ''alice'' =
     (Inr (PDict [(''cart_items'',
             PList [PDict (cart_doc_dict widget_entry @ [(''product'', product_dict widget)])])]),
      shop)"
    by (simp add: get_cart_def find_all_def shop_def widget_def widget_entry_def dangling_entry_def)
  have "\<not> jsonable (PDict [(''cart_items'',
             PList [PDict (cart_doc_dict widget_entry @ [(''product'', product_dict widget)])])])"
    by (simp add: cart_doc_dict_def)
  with val have "get_cart_route shop ''alice'' =
      (Inl (ValueError ''ObjectId is not JSON serializable''), shop)"
    by (simp add: get_cart_route_def del: jsonable.simps)
  with val show ?thesis by simp
qed

subsection \<open>Chat\<close>

lemma enhanced_prompt_longer: "length text < length (enhanced_prompt ps user_cart text)"
  by (simp add: enhanced_prompt_def Let_def)

lemma turn_prompt_text:
  "dict_get message ''user_id'' (JStr ''anonymous'') = JStr u \<Longrightarrow>
   dict_get message ''message'' (JStr '''') = JStr m \<Longrightarrow>
   turn_prompt w d message =
     Inr (enhanced_prompt (products d) (take 10 (find_all (\<lambda>i. c_user_id i = u) (cart d))) m)"
  by (simp add: turn_prompt_def)

text \<open>
  Claim C6, as the code has it. When the cart lookup of the turn or the provider raises
  \<open>e\<close>, the handler returns the 500 for \<open>e\<close> and the database is as before. When the
  provider answers and the user id and the message of the body pass the validation of the
  \<^verbatim>\<open>ChatMessage\<close> fields, the handler returns the answer and appends one record with the
  validated user id and message and the answer as received. When the provider answers and
  one of the two fails the validation, the handler returns a 500 and the database is as
  before. For a body whose user id and message are texts, or missing, the record holds the
  message as sent, which differs from the prompt built around it.
\<close>

theorem chat_turn_record:
  "(turn_prompt w d message = Inl e \<longrightarrow>
      chat_with_ai w d message = (Inl (HTTPException 500 (Str e)), d)) \<and>
   (turn_prompt w d message = Inr prompt \<and> send_message w 0 prompt = Inl e \<longrightarrow>
      chat_with_ai w d message = (Inl (HTTPException 500 (Str e)), d)) \<and>
   (turn_prompt w d message = Inr prompt \<and> send_message w 0 prompt = Inr response \<and>
    str_field w (dict_get message ''user_id'' (JStr ''anonymous'')) = Some uid \<and>
    str_field w (dict_get message ''message'' (JStr '''')) = Some msg \<longrightarrow>
      chat_with_ai w d message =
        (Inr response,
         d\<lparr>chat_history := chat_history d @
              [\<lparr>m_id = uuid4 w 0, m_user_id = uid, m_message = msg, m_response = response,
                m_timestamp = utcnow w 0\<rparr>]\<rparr>)) \<and>
   (turn_prompt w d message = Inr prompt \<and> send_message w 0 prompt = Inr response \<and>
    (str_field w (dict_get message ''user_id'' (JStr ''anonymous'')) = None \<or>
     str_field w (dict_get message ''message'' (JStr '''')) = None) \<longrightarrow>
      chat_with_ai w d message =
        (Inl (HTTPException 500 (Str (ValidationError ''ChatMessage''))), d)) \<and>
   (dict_get message ''user_id'' (JStr ''anonymous'') = JStr u \<and>
    dict_get message ''message'' (JStr '''') = JStr m \<and>
    send_message w 0
      (enhanced_prompt (products d) (take 10 (find_all (\<lambda>i. c_user_id i = u) (cart d))) m) =
      Inr response \<longrightarrow>
      chat_with_ai w d message =
        (Inr response,
         d\<lparr>chat_history := chat_history d @
              [\<lparr>m_id = uuid4 w 0, m_user_id = u, m_message = m, m_response = response,
                m_timestamp = utcnow w 0\<rparr>]\<rparr>) \<and>
      m \<noteq> enhanced_prompt (products d) (take 10 (find_all (\<lambda>i. c_user_id i = u) (cart d))) m)"
proof -
  have g1: "chat_with_ai w d message = (Inl (HTTPException 500 (Str e)), d)"
    if "turn_prompt w d message = Inl e"
    using that by (simp add: chat_with_ai_def)
  have g2: "chat_with_ai w d message = (Inl (HTTPException 500 (Str e)), d)"
    if "turn_prompt w d message = Inr prompt \<and> send_message w 0 prompt = Inl e"
    using that by (simp add: chat_with_ai_def)
  have g3: "chat_with_ai w d message =
        (Inr response,
         d\<lparr>chat_history := chat_history d @
              [\<lparr>m_id = uuid4 w 0, m_user_id = uid, m_message = msg, m_response = response,
                m_timestamp = utcnow w 0\<rparr>]\<rparr>)"
    if "turn_prompt w d message = Inr prompt \<and> send_message w 0 prompt = Inr response \<and>
        str_field w (dict_get message ''user_id'' (JStr ''anonymous'')) = Some uid \<and>
        str_field w (dict_get message ''message'' (JStr '''')) = Some msg"
    for prompt uid msg
    using that by (simp add: chat_with_ai_def new_chat_message_def insert_one_def)
  have g4: "chat_with_ai w d message =
        (Inl (HTTPException 500 (Str (ValidationError ''ChatMessage''))), d)"
    if "turn_prompt w d message = Inr prompt \<and> send_message w 0 prompt = Inr response \<and>
        (str_field w (dict_get message ''user_id'' (JStr ''anonymous'')) = None \<or>
         str_field w (dict_get message ''message'' (JStr '''')) = None)"
    using that by (auto simp: chat_with_ai_def new_chat_message_def split: option.splits)
  have g5: "chat_with_ai w d message =
        (Inr response,
         d\<lparr>chat_history := chat_history d @
              [\<lparr>m_id = uuid4 w 0, m_user_id = u, m_message = m, m_response = response,
                m_timestamp = utcnow w 0\<rparr>]\<rparr>) \<and>
      m \<noteq> enhanced_prompt (products d) (take 10 (find_all (\<lambda>i. c_user_id i = u) (cart d))) m"
    if a: "dict_get message ''user_id'' (JStr ''anonymous'') = JStr u \<and>
        dict_get message ''message'' (JStr '''') = JStr m \<and>
        send_message w 0
          (enhanced_prompt (products d) (take 10 (find_all (\<lambda>i. c_user_id i = u) (cart d))) m) =
          Inr response"
  proof -
    let ?prompt = "enhanced_prompt (products d) (take 10 (find_all (\<lambda>i. c_user_id i = u) (cart d))) m"
    from a have tp: "turn_prompt w d message = Inr ?prompt" by (simp add: turn_prompt_text)
    from a have "str_field w (dict_get message ''user_id'' (JStr ''anonymous'')) = Some u"
      and "str_field w (dict_get message ''message'' (JStr '''')) = Some m"
      by simp_all
    with tp a have "chat_with_ai w d message =
        (Inr response,
         d\<lparr>chat_history := chat_history d @
              [\<lparr>m_id = uuid4 w 0, m_user_id = u, m_message = m, m_response = response,
                m_timestamp = utcnow w 0\<rparr>]\<rparr>)"
      using g3 [of ?prompt u m] by simp
    moreover have "m \<noteq> ?prompt"
      using enhanced_prompt_longer [of m "products d" "take 10 (find_all (\<lambda>i. c_user_id i = u) (cart d))"]
      by auto
    ultimately show ?thesis by simp
  qed
  from g1 g2 g3 [of prompt uid msg] g4 g5 show ?thesis by blast
qed

text \<open>
  Claim C6 as stated says that a turn the provider answers is recorded. For the body
  \<^verbatim>\<open>{"message": null}\<close> the provider answers the prompt, the construction of the
  \<^verbatim>\<open>ChatMessage\<close> then fails, and the handler returns a 500 without a record:
\<close>

theorem chat_turn_null_message_counterexample:
  "map_sum id (send_message (env_reply ''Hello!'') 0)
     (turn_prompt (env_reply ''Hello!'') shop [''message'' \<mapsto> JNull]) = Inr (Inr ''Hello!'') \<and>
   chat_with_ai (env_reply ''Hello!'') shop [''message'' \<mapsto> JNull] =
     (Inl (HTTPException 500 (Str (ValidationError ''ChatMessage''))), shop)"
  by (simp add: chat_with_ai_def turn_prompt_def new_chat_message_def dict_get_def env_reply_def)

theorem chat_turn_record_witness:
  "turn_prompt (env_reply ''Hello!'') shop [''message'' \<mapsto> JStr ''hi'', ''user_id'' \<mapsto> JStr ''bob''] =
     Inr ''User's cart contains: empty. User asks: hi'' \<and>
   send_message (env_reply ''Hello!'') 0 ''User's cart contains: empty. User asks: hi'' =
     Inr ''Hello!'' \<and>
   chat_with_ai (env_reply ''Hello!'') shop [''message'' \<mapsto> JStr ''hi'', ''user_id'' \<mapsto> JStr ''bob''] =
     (Inr ''Hello!'',
      shop\<lparr>chat_history :=
        [\<lparr>m_id = ''uuid-a'', m_user_id = ''bob'', m_message = ''hi'', m_response = ''Hello!'',
          m_timestamp = 1000\<rparr>]\<rparr>) \<and>
   turn_prompt env_down shop [''message'' \<mapsto> JStr ''hi'', ''user_id'' \<mapsto> JStr ''bob''] =
     Inr ''User's cart contains: empty. User asks: hi'' \<and>
   send_message env_down 0 ''User's cart contains: empty. User asks: hi'' =
     Inl (ProviderError ''provider unavailable'') \<and>
   chat_with_ai env_down shop [''message'' \<mapsto> JStr ''hi'', ''user_id'' \<mapsto> JStr ''bob''] =
     (Inl (HTTPException 500 (Str (ProviderError ''provider unavailable''))), shop) \<and>
   turn_prompt (env_reply ''Hello!'') shop [''message'' \<mapsto> JNull] =
     Inr ''User's cart contains: empty. User asks: None'' \<and>
   str_field (env_reply ''Hello!'') (dict_get [''message'' \<mapsto> JNull] ''message'' (JStr '''')) = None \<and>
   chat_with_ai (env_reply ''Hello!'') shop [''message'' \<mapsto> JNull] =
     (Inl (HTTPException 500 (Str (ValidationError ''ChatMessage''))), shop)"
proof -
  let ?w = "env_reply ''Hello!''"
  let ?body = "[''message'' \<mapsto> JStr ''hi'', ''user_id'' \<mapsto> JStr ''bob'']"
  let ?null = "[''message'' \<mapsto> JNull] :: string \<rightharpoonup> json"
  let ?prompt = "''User's cart contains: empty. User asks: hi''"
  have tp: "turn_prompt w shop ?body = Inr ?prompt" for w
    by (simp add: turn_prompt_def dict_get_def enhanced_prompt_def find_all_def demo_defs)
  have tn: "turn_prompt ?w shop ?null = Inr ''User's cart contains: empty. User asks: None''"
    by (simp add: turn_prompt_def dict_get_def enhanced_prompt_def find_all_def demo_defs
          env_reply_def)
  have up: "send_message ?w 0 p = Inr ''Hello!''" for p
    by (simp add: env_reply_def)
  have down: "send_message env_down 0 p = Inl (ProviderError ''provider unavailable'')" for p
    by (simp add: env_down_def)
  have ids: "uuid4 ?w 0 = ''uuid-a''" "utcnow ?w 0 = 1000"
    by (simp_all add: env_reply_def)
  have fields: "str_field ?w (dict_get ?body ''user_id'' (JStr ''anonymous'')) = Some ''bob''"
    "str_field ?w (dict_get ?body ''message'' (JStr '''')) = Some ''hi''"
    by (simp_all add: dict_get_def)
  have nf: "str_field ?w (dict_get ?null ''message'' (JStr '''')) = None"
    by (simp add: dict_get_def)
  from chat_turn_record
         [where w = ?w and d = shop and message = ?body and prompt = ?prompt
            and response = "''Hello!''" and uid = "''bob''" and msg = "''hi''"]
       tp up fields
  have "chat_with_ai ?w shop ?body =
        (Inr ''Hello!'',
         shop\<lparr>chat_history := chat_history shop @
              [\<lparr>m_id = uuid4 ?w 0, m_user_id = ''bob'', m_message = ''hi'',
                m_response = ''Hello!'', m_timestamp = utcnow ?w 0\<rparr>]\<rparr>)"
    by blast
  then have a: "chat_with_ai ?w shop ?body =
     (Inr ''Hello!'',
      shop\<lparr>chat_history :=
        [\<lparr>m_id = ''uuid-a'', m_user_id = ''bob'', m_message = ''hi'', m_response = ''Hello!'',
          m_timestamp = 1000\<rparr>]\<rparr>)"
    by (simp add: ids shop_def)
  from chat_turn_record
         [where w = env_down and d = shop and message = ?body and prompt = ?prompt
            and e = "ProviderError ''provider unavailable''"]
       tp down
  have b: "chat_with_ai env_down shop ?body =
     (Inl (HTTPException 500 (Str (ProviderError ''provider unavailable''))), shop)"
    by blast
  from chat_turn_record
         [where w = ?w and d = shop and message = ?null
            and prompt = "''User's cart contains: empty. User asks: None''"
            and response = "''Hello!''"]
       tn up nf
  have c: "chat_with_ai ?w shop ?null =
     (Inl (HTTPException 500 (Str (ValidationError ''ChatMessage''))), shop)"
    by blast
  from tp [of ?w] tp [of env_down] tn up down nf a b c show ?thesis by simp
qed



subsection \<open>Seeding\<close>

lemma snd_except_500: "snd (except_500 r) = snd r"
  by (cases r rule: except_500.cases) auto

lemma fst_except_500_Inr: "fst (except_500 r) = Inr v \<longleftrightarrow> fst r = Inr v"
  by (cases r rule: except_500.cases) auto

lemma p_name_new_product: "p_name (new_product w k product_data description) = s_name product_data"
  by (simp add: new_product_def)

text \<open>
  The loop only appends products, each under a name the catalog did not have, and leaves
  cart and chat history alone; this holds also when the provider fails on the way.
\<close>

lemma seed_loop_appends:
  "\<exists>new. products (snd (seed_loop w k samples d)) = products d @ new \<and>
         (\<forall>p\<in>set new. p_name p \<notin> p_name ` set (products d)) \<and>
         (distinct (map p_name (products d)) \<longrightarrow>
            distinct (map p_name (products (snd (seed_loop w k samples d))))) \<and>
         cart (snd (seed_loop w k samples d)) = cart d \<and>
         chat_history (snd (seed_loop w k samples d)) = chat_history d"
proof (induction samples arbitrary: k d)
  case Nil
  then show ?case by simp
next
  case (Cons product_data rest)
  show ?case
  proof (cases "generate_product_description w k (s_name product_data) (s_category product_data)")
    case (Inl e)
    then show ?thesis by simp
  next
    case (Inr description)
    let ?product = "new_product w k product_data description"
    show ?thesis
    proof (cases "find_one (\<lambda>p. p_name p = p_name ?product) (products d)")
      case None
      let ?d1 = "d\<lparr>products := insert_one ?product (products d)\<rparr>"
      from None have fresh: "p_name ?product \<notin> p_name ` set (products d)"
        using find_one_present [of "p_name ?product" p_name "products d"] by auto
      from Cons.IH [of "Suc k" ?d1] obtain new where
        new: "products (snd (seed_loop w (Suc k) rest ?d1)) = products ?d1 @ new"
        and out: "\<forall>p\<in>set new. p_name p \<notin> p_name ` set (products ?d1)"
        and dist: "distinct (map p_name (products ?d1)) \<longrightarrow>
            distinct (map p_name (products (snd (seed_loop w (Suc k) rest ?d1))))"
        and frame: "cart (snd (seed_loop w (Suc k) rest ?d1)) = cart ?d1"
          "chat_history (snd (seed_loop w (Suc k) rest ?d1)) = chat_history ?d1"
        by blast
      have step: "seed_loop w k (product_data # rest) d = seed_loop w (Suc k) rest ?d1"
        using Inr None by (simp add: Let_def)
      have "products (snd (seed_loop w (Suc k) rest ?d1)) = products d @ (?product # new)"
        using new by (simp add: insert_one_def)
      moreover have "\<forall>p\<in>set (?product # new). p_name p \<notin> p_name ` set (products d)"
        using fresh out by (simp add: insert_one_def)
      moreover have "distinct (map p_name (products d)) \<longrightarrow>
            distinct (map p_name (products (snd (seed_loop w (Suc k) rest ?d1))))"
        using dist fresh by (simp add: insert_one_def)
      ultimately show ?thesis unfolding step using frame by auto
    next
      case (Some existing)
      have step: "seed_loop w k (product_data # rest) d = seed_loop w (Suc k) rest d"
        using Inr Some by (simp add: Let_def)
      show ?thesis unfolding step by (rule Cons.IH)
    qed
  qed
qed

text \<open>
  A run that ends without exception leaves every sample name in the catalog, and a run
  over names that are all in the catalog inserts nothing.
\<close>

lemma seed_loop_names_present:
  "fst (seed_loop w k samples d) = Inr m \<Longrightarrow>
   s_name ` set samples \<subseteq> p_name ` set (products (snd (seed_loop w k samples d)))"
proof (induction samples arbitrary: k d)
  case Nil
  then show ?case by simp
next
  case (Cons product_data rest)
  from Cons.prems obtain description where
    descr: "generate_product_description w k (s_name product_data) (s_category product_data) =
      Inr description"
    by (cases "generate_product_description w k (s_name product_data) (s_category product_data)")
       auto
  let ?product = "new_product w k product_data description"
  let ?d1 = "if find_one (\<lambda>p. p_name p = p_name ?product) (products d) = None
             then d\<lparr>products := insert_one ?product (products d)\<rparr> else d"
  have step: "seed_loop w k (product_data # rest) d = seed_loop w (Suc k) rest ?d1"
    using descr by (simp add: Let_def)
  have here: "s_name product_data \<in> p_name ` set (products ?d1)"
  proof (cases "find_one (\<lambda>p. p_name p = p_name ?product) (products d)")
    case None
    then show ?thesis by (simp add: insert_one_def p_name_new_product)
  next
    case (Some existing)
    then have "p_name ?product \<in> p_name ` set (products d)" by (rule find_one_key_Some)
    with Some show ?thesis by (simp add: p_name_new_product)
  qed
  from seed_loop_appends [of w "Suc k" rest ?d1] obtain new where
    "products (snd (seed_loop w (Suc k) rest ?d1)) = products ?d1 @ new" by blast
  with here have "s_name product_data \<in> p_name ` set (products (snd (seed_loop w (Suc k) rest ?d1)))"
    by auto
  moreover from Cons.prems have "fst (seed_loop w (Suc k) rest ?d1) = Inr m"
    unfolding step .
  then have "s_name ` set rest \<subseteq> p_name ` set (products (snd (seed_loop w (Suc k) rest ?d1)))"
    by (rule Cons.IH)
  ultimately show ?case unfolding step by simp
qed

lemma seed_loop_noop:
  "s_name ` set samples \<subseteq> p_name ` set (products d) \<Longrightarrow>
   products (snd (seed_loop w k samples d)) = products d"
proof (induction samples arbitrary: k)
  case Nil
  then show ?case by simp
next
  case (Cons product_data rest)
  show ?case
  proof (cases "generate_product_description w k (s_name product_data) (s_category product_data)")
    case (Inl e)
    then show ?thesis by simp
  next
    case (Inr description)
    from Cons.prems have "s_name product_data \<in> p_name ` set (products d)" by simp
    then obtain existing where
      "find_one (\<lambda>p. p_name p = s_name product_data) (products d) = Some existing"
      using find_one_present by fastforce
    with Inr have "seed_loop w k (product_data # rest) d = seed_loop w (Suc k) rest d"
      by (simp add: Let_def p_name_new_product)
    with Cons show ?thesis by simp
  qed
qed

lemma seed_requests_distinct:
  "distinct (map p_name (products d)) \<Longrightarrow>
   distinct (map p_name (products (seed_requests ws d)))"
proof (induction ws arbitrary: d)
  case Nil
  then show ?case by simp
next
  case (Cons w ws)
  from seed_loop_appends [of w 0 SAMPLE_PRODUCTS d] Cons.prems
  have "distinct (map p_name (products (snd (seed_products w d))))"
    by (auto simp: seed_products_def snd_except_500)
  then show ?case by (simp add: Cons.IH)
qed

text \<open>
  Claim C4. On a catalog whose product names are distinct (the empty catalog, say), any
  number of seed requests, whatever the provider answers or fails to answer in each,
  leaves the product names distinct. A seed request only appends products whose names the
  catalog did not have before the request, and after a seed request that succeeded
  a further seed request leaves the catalog as it is.
\<close>

theorem seeding_keeps_names_unique:
  assumes "distinct (map p_name (products d))"
  shows "distinct (map p_name (products (seed_requests ws d))) \<and>
         (\<exists>new. products (snd (seed_products w d)) = products d @ new \<and>
                (\<forall>p\<in>set new. p_name p \<notin> p_name ` set (products d))) \<and>
         (fst (seed_products w d) = Inr m \<longrightarrow>
            products (snd (seed_products w' (snd (seed_products w d)))) =
              products (snd (seed_products w d)))"
proof -
  have a: "distinct (map p_name (products (seed_requests ws d)))"
    using assms by (rule seed_requests_distinct)
  from seed_loop_appends [of w 0 SAMPLE_PRODUCTS d]
  have b: "\<exists>new. products (snd (seed_products w d)) = products d @ new \<and>
                (\<forall>p\<in>set new. p_name p \<notin> p_name ` set (products d))"
    by (auto simp: seed_products_def snd_except_500)
  have c: "products (snd (seed_products w' (snd (seed_products w d)))) =
              products (snd (seed_products w d))"
    if "fst (seed_products w d) = Inr m"
  proof -
    from that have "fst (seed_loop w 0 SAMPLE_PRODUCTS d) = Inr m"
      by (simp add: seed_products_def fst_except_500_Inr)
    then have "s_name ` set SAMPLE_PRODUCTS \<subseteq>
        p_name ` set (products (snd (seed_loop w 0 SAMPLE_PRODUCTS d)))"
      by (rule seed_loop_names_present)
    then have "products (snd (seed_loop w' 0 SAMPLE_PRODUCTS (snd (seed_loop w 0 SAMPLE_PRODUCTS d)))) =
        products (snd (seed_loop w 0 SAMPLE_PRODUCTS d))"
      by (rule seed_loop_noop)
    then show ?thesis
      by (simp add: seed_products_def snd_except_500)
  qed
  from a b c show ?thesis by blast
qed

theorem seeding_keeps_names_unique_witness:
  "distinct (map p_name (products empty_shop)) \<and>
   distinct (map p_name (products (seed_requests [env_reply ''Nice.'', env_down, env_reply ''New.'']
                                     empty_shop)))"
proof -
  have h: "distinct (map p_name (products empty_shop))" by (simp add: empty_shop_def)
  from seeding_keeps_names_unique [OF h] h show ?thesis by blast
qed

text \<open>Seeding the empty catalog twice gives the eight sample products, once each.\<close>

lemma seed_twice_example:
  "map p_name (products (seed_requests [env_reply ''Nice.'', env_reply ''New.''] empty_shop)) =
     map s_name SAMPLE_PRODUCTS"
  by code_simp

subsection \<open>Search\<close>

lemma str_split_length: "length (str_split sep s) = Suc (count_list s sep)"
  by (induction s) (auto split: list.splits)

lemma or_clause_raw_query:
  "\<exists>rest. fst (or_clause w (s # ks)) = ''(?i)'' @ s @ rest"
  by (cases ks) (simp_all add: or_clause_def)

lemma or_clause_tags: "str_lower w s \<in> set (snd (or_clause w (s # ks)))"
  by (simp add: or_clause_def)

text \<open>
  Claim C3, as the code has it. For a non-empty raw query and a limit of at most 100,
  which is what the route lets through: when the provider raises \<open>e\<close>,
  the search returns no products and the handler answers with the 500 for \<open>e\<close>. When the
  provider answers, whatever the answer (the empty text included), the query is built
  from the terms that are the raw query followed by the trimmed comma-separated pieces of
  the answer, so the raw query is among the terms, leads the pattern for name and
  description, and its lower-case form is among the tag terms. The handler then answers
  with a 500 when the limit is negative or when the database rejects the pattern, and
  with the first \<open>limit\<close> matches of the query otherwise.
\<close>

theorem search_keeps_raw_query_or_fails:
  assumes "s \<noteq> []" and "limit \<le> 100"
  shows "(send_message w 0 (search_prompt s category) = Inl e \<longrightarrow>
           get_products w d category (Some s) limit = (Inl (HTTPException 500 (Str e)), d)) \<and>
         (send_message w 0 (search_prompt s category) = Inr response \<longrightarrow>
           (let search_terms = s # map (str_strip w) (str_split (CHR '','') response);
                query = \<lparr>q_category = (if truthy category then category else None),
                         q_or = Some (or_clause w search_terms)\<rparr>
            in build_query w category (Some s) = Inr query \<and>
               s \<in> set search_terms \<and>
               (\<exists>rest. fst (or_clause w search_terms) = ''(?i)'' @ s @ rest) \<and>
               str_lower w s \<in> set (snd (or_clause w search_terms)) \<and>
               (limit < 0 \<longrightarrow>
                  get_products w d category (Some s) limit =
                    (Inl (HTTPException 500 (Str (ValueError ''length must be non-negative''))), d)) \<and>
               (0 \<le> limit \<and> regex w (fst (or_clause w search_terms)) = Inl rejection \<longrightarrow>
                  get_products w d category (Some s) limit =
                    (Inl (HTTPException 500 (Str rejection)), d)) \<and>
               (0 \<le> limit \<and> regex w (fst (or_clause w search_terms)) = Inr found_in \<longrightarrow>
                  get_products w d category (Some s) limit =
                    (Inr (take (nat limit) (find_all (matches query found_in) (products d))), d))))"
proof -
  let ?terms = "s # map (str_strip w) (str_split (CHR '','') response)"
  let ?query = "\<lparr>q_category = (if truthy category then category else None),
                  q_or = Some (or_clause w ?terms)\<rparr>"
  have bad: "get_products w d category (Some s) limit = (Inl (HTTPException 500 (Str e)), d)"
    if "send_message w 0 (search_prompt s category) = Inl e"
    using that assms
    by (simp add: get_products_def build_query_def get_smart_search_results_def Let_def)
  have bq: "build_query w category (Some s) = Inr ?query"
    if "send_message w 0 (search_prompt s category) = Inr response"
    using that assms by (simp add: build_query_def get_smart_search_results_def Let_def)
  have fp: "find_products w ?query ps =
      (case regex w (fst (or_clause w ?terms)) of
         Inl e \<Rightarrow> Inl e
       | Inr found_in \<Rightarrow> Inr (find_all (matches ?query found_in) ps))" for ps
    by (simp add: find_products_def case_prod_unfold)
  have neg: "get_products w d category (Some s) limit =
      (Inl (HTTPException 500 (Str (ValueError ''length must be non-negative''))), d)"
    if "send_message w 0 (search_prompt s category) = Inr response" and "limit < 0"
    using bq [OF that(1)] that(2) assms(2) by (simp add: get_products_def)
  have rej: "get_products w d category (Some s) limit =
      (Inl (HTTPException 500 (Str rejection)), d)"
    if "send_message w 0 (search_prompt s category) = Inr response"
      and "0 \<le> limit \<and> regex w (fst (or_clause w ?terms)) = Inl rejection"
    using bq [OF that(1)] that(2) assms(2) by (simp add: get_products_def fp)
  have ok: "get_products w d category (Some s) limit =
      (Inr (take (nat limit) (find_all (matches ?query found_in) (products d))), d)"
    if "send_message w 0 (search_prompt s category) = Inr response"
      and "0 \<le> limit \<and> regex w (fst (or_clause w ?terms)) = Inr found_in"
    using bq [OF that(1)] that(2) assms(2) by (simp add: get_products_def fp)
  from bad bq neg rej ok
    or_clause_raw_query [of w s "map (str_strip w) (str_split (CHR '','') response)"]
    or_clause_tags [of w s "map (str_strip w) (str_split (CHR '','') response)"]
  show ?thesis by (simp add: Let_def)
qed

text \<open>
  Claim C3 as stated says that a search still produces a result when the provider is
  unavailable. With the provider down, the search for \<^verbatim>\<open>widget\<close> in \<open>shop\<close>, whose catalog
  holds the product Widget, is answered by an error:
\<close>

theorem search_provider_down_counterexample:
  "get_products env_down shop None (Some ''widget'') 20 =
     (Inl (HTTPException 500 (Str (ProviderError ''provider unavailable''))), shop)"
  by (simp add: get_products_def build_query_def get_smart_search_results_def env_down_def)

theorem search_keeps_raw_query_or_fails_witness:
  "''widget'' \<noteq> [] \<and> (20 :: int) \<le> 100 \<and> (- 1 :: int) \<le> 100 \<and>
   send_message (env_reply '''') 0 (search_prompt ''widget'' None) = Inr '''' \<and>
   get_products (env_reply '''') shop None (Some ''widget'') 20 = (Inr [widget], shop) \<and>
   get_products (env_reply '''') shop None (Some ''widget'') (- 1) =
     (Inl (HTTPException 500 (Str (ValueError ''length must be non-negative''))), shop) \<and>
   send_message env_down 0 (search_prompt ''widget'' None) =
     Inl (ProviderError ''provider unavailable'') \<and>
   get_products env_down shop None (Some ''widget'') 20 =
     (Inl (HTTPException 500 (Str (ProviderError ''provider unavailable''))), shop) \<and>
   ''('' \<noteq> [] \<and>
   send_message (env_reply '''') 0 (search_prompt ''('' None) = Inr '''' \<and>
   get_products (env_reply '''') shop None (Some ''('') 20 =
     (Inl (HTTPException 500 (Str (OperationFailure ''Regular expression is invalid''))), shop)"
proof -
  let ?w = "env_reply ''''"
  have h: "''widget'' \<noteq> []" by simp
  have h': "''('' \<noteq> []" by simp
  have l: "(20 :: int) \<le> 100" "(- 1 :: int) \<le> 100" by simp_all
  have up: "send_message ?w 0 p = Inr ''''" for p
    by (simp add: env_reply_def)
  have down: "send_message env_down 0 (search_prompt ''widget'' None) =
      Inl (ProviderError ''provider unavailable'')"
    by (simp add: env_down_def)
  have pat: "fst (or_clause ?w (''widget'' # map (str_strip ?w) (str_split (CHR '','') ''''))) =
      ''(?i)widget|(?i)''"
    by code_simp
  have rx: "regex ?w ''(?i)widget|(?i)'' = literal_regex ''(?i)widget|(?i)''"
    by (simp add: env_reply_def)
  obtain found_in where fi: "literal_regex ''(?i)widget|(?i)'' = Inr found_in"
    and fi_def: "found_in = (\<lambda>s. list_ex (\<lambda>b. occurs_in (ascii_lower (drop 4 b)) (ascii_lower s))
        (str_split (CHR ''|'') ''(?i)widget|(?i)''))"
    by (simp add: literal_regex_def metachar_def Let_def)
  have ev: "take (nat 20) (find_all (matches
          \<lparr>q_category = (if truthy None then None else None),
           q_or = Some (or_clause ?w (''widget'' # map (str_strip ?w) (str_split (CHR '','') '''')))\<rparr>
          (\<lambda>s. list_ex (\<lambda>b. occurs_in (ascii_lower (drop 4 b)) (ascii_lower s))
             (str_split (CHR ''|'') ''(?i)widget|(?i)'')))
          (products shop)) = [widget]"
    by code_simp
  from search_keeps_raw_query_or_fails
         [where s = "''widget''" and w = ?w and category = None and response = "''''"
            and d = shop and limit = 20 and found_in = found_in] h l up pat rx fi
  have "get_products ?w shop None (Some ''widget'') 20 =
      (Inr (take (nat 20) (find_all (matches
          \<lparr>q_category = (if truthy None then None else None),
           q_or = Some (or_clause ?w (''widget'' # map (str_strip ?w) (str_split (CHR '','') '''')))\<rparr>
          found_in) (products shop))), shop)"
    by (simp add: Let_def)
  with ev have a: "get_products ?w shop None (Some ''widget'') 20 = (Inr [widget], shop)"
    unfolding fi_def by simp
  from search_keeps_raw_query_or_fails
         [where s = "''widget''" and w = ?w and category = None and response = "''''"
            and d = shop and limit = "- 1"] h l up
  have n: "get_products ?w shop None (Some ''widget'') (- 1) =
     (Inl (HTTPException 500 (Str (ValueError ''length must be non-negative''))), shop)"
    by (simp add: Let_def)
  from search_keeps_raw_query_or_fails
         [where s = "''widget''" and w = env_down and category = None and d = shop
            and limit = 20 and e = "ProviderError ''provider unavailable''"] h l down
  have b: "get_products env_down shop None (Some ''widget'') 20 =
     (Inl (HTTPException 500 (Str (ProviderError ''provider unavailable''))), shop)"
    by blast
  have pat': "fst (or_clause ?w (''('' # map (str_strip ?w) (str_split (CHR '','') ''''))) =
      ''(?i)(|(?i)''"
    by code_simp
  have rej: "regex ?w ''(?i)(|(?i)'' = Inl (OperationFailure ''Regular expression is invalid'')"
    by (simp add: env_reply_def literal_regex_def metachar_def Let_def)
  from search_keeps_raw_query_or_fails
         [where s = "''(''" and w = ?w and category = None and response = "''''"
            and d = shop and limit = 20
            and rejection = "OperationFailure ''Regular expression is invalid''"] h' l up pat' rej
  have c: "get_products ?w shop None (Some ''('') 20 =
     (Inl (HTTPException 500 (Str (OperationFailure ''Regular expression is invalid''))), shop)"
    by (simp add: Let_def)
  from h h' l up down a n b c show ?thesis by simp
qed

subsection \<open>Recommendations\<close>

lemma recommend_loop_accepted:
  "\<forall>category\<in>set categories. \<not> isl (regex w (''(?i)'' @ category)) \<Longrightarrow>
   recommend_loop w ps categories acc =
     Inr (acc @ concat (map (\<lambda>category.
             case regex w (''(?i)'' @ category) of
               Inl e \<Rightarrow> []
             | Inr found_in \<Rightarrow> take 2 (find_all (\<lambda>p. found_in (p_category p)) ps)) categories))"
proof (induction categories arbitrary: acc)
  case Nil
  then show ?case by simp
next
  case (Cons category rest)
  then obtain found_in where "regex w (''(?i)'' @ category) = Inr found_in"
    by (cases "regex w (''(?i)'' @ category)") auto
  with Cons show ?case by (simp add: Let_def)
qed

lemma recommend_loop_rejected:
  "\<exists>category\<in>set categories. isl (regex w (''(?i)'' @ category)) \<Longrightarrow>
   \<exists>e. recommend_loop w ps categories acc = Inl e"
proof (induction categories arbitrary: acc)
  case Nil
  then show ?case by simp
next
  case (Cons category rest)
  show ?case
  proof (cases "regex w (''(?i)'' @ category)")
    case (Inl e)
    then show ?thesis by simp
  next
    case (Inr found_in)
    with Cons.prems have "\<exists>category\<in>set rest. isl (regex w (''(?i)'' @ category))" by auto
    from Cons.IH [OF this] Inr show ?thesis by (simp add: Let_def)
  qed
qed

lemma length_concat_bounded:
  "\<forall>x. length (f x) \<le> n \<Longrightarrow> length (concat (map f xs)) \<le> n * length xs"
proof (induction xs)
  case Nil
  then show ?case by simp
next
  case (Cons x xs)
  then have "length (f x) \<le> n" and "length (concat (map f xs)) \<le> n * length xs" by simp_all
  then show ?case by simp
qed

text \<open>
  Claim C5, as the code has it. When the provider raises \<open>e\<close> the handler answers with
  the 500 for \<open>e\<close>. When the provider answers, the category list is the list of the
  comma-separated pieces of the answer, trimmed and lower-cased, in order and with
  duplicates: one more than the answer has commas, whatever that number is. The
  contribution of a category is the first two products in whose category the pattern
  \<^verbatim>\<open>(?i)category\<close> is found, so it holds at most two products. When the database accepts
  the pattern of every category, the recommendations are the contributions of the
  categories in that order; when it rejects one, the handler answers with a 500.
\<close>

theorem recommendations_two_per_category:
  "(send_message w 0 (recommendation_prompt d user_id) = Inl e \<longrightarrow>
      get_recommendations w d user_id = (Inl (HTTPException 500 (Str e)), d)) \<and>
   (send_message w 0 (recommendation_prompt d user_id) = Inr response \<longrightarrow>
      (let categories =
             map (\<lambda>cat. str_lower w (str_strip w cat)) (str_split (CHR '','') response);
           contribution = (\<lambda>category.
             case regex w (''(?i)'' @ category) of
               Inl e \<Rightarrow> []
             | Inr found_in \<Rightarrow> take 2 (find_all (\<lambda>p. found_in (p_category p)) (products d)))
       in length categories = Suc (count_list response (CHR '','')) \<and>
          (\<forall>category. length (contribution category) \<le> 2) \<and>
          length (concat (map contribution categories)) \<le> 2 * length categories \<and>
          ((\<forall>category\<in>set categories. \<not> isl (regex w (''(?i)'' @ category))) \<longrightarrow>
             get_recommendations w d user_id =
               (Inr (concat (map contribution categories), categories), d)) \<and>
          ((\<exists>category\<in>set categories. isl (regex w (''(?i)'' @ category))) \<longrightarrow>
             (\<exists>e'. get_recommendations w d user_id = (Inl (HTTPException 500 (Str e')), d)))))"
proof -
  let ?categories = "map (\<lambda>cat. str_lower w (str_strip w cat)) (str_split (CHR '','') response)"
  let ?contribution = "\<lambda>category.
         case regex w (''(?i)'' @ category) of
           Inl e \<Rightarrow> []
         | Inr found_in \<Rightarrow> take 2 (find_all (\<lambda>p. found_in (p_category p)) (products d))"
  have bad: "get_recommendations w d user_id = (Inl (HTTPException 500 (Str e)), d)"
    if "send_message w 0 (recommendation_prompt d user_id) = Inl e"
    using that by (simp add: get_recommendations_def get_product_recommendations_def)
  have ok: "get_recommendations w d user_id =
      (Inr (concat (map ?contribution ?categories), ?categories), d)"
    if "send_message w 0 (recommendation_prompt d user_id) = Inr response"
      and "\<forall>category\<in>set ?categories. \<not> isl (regex w (''(?i)'' @ category))"
    using that(1) recommend_loop_accepted [OF that(2), of "products d" "[]"]
    by (simp add: get_recommendations_def get_product_recommendations_def)
  have rej: "\<exists>e'. get_recommendations w d user_id = (Inl (HTTPException 500 (Str e')), d)"
    if "send_message w 0 (recommendation_prompt d user_id) = Inr response"
      and "\<exists>category\<in>set ?categories. isl (regex w (''(?i)'' @ category))"
  proof -
    from recommend_loop_rejected [OF that(2), of "products d" "[]"]
    obtain e' where "recommend_loop w (products d) ?categories [] = Inl e'" by blast
    with that(1) show ?thesis
      by (simp add: get_recommendations_def get_product_recommendations_def)
  qed
  have len: "length ?categories = Suc (count_list response (CHR '',''))"
    by (simp add: str_split_length)
  have two: "\<forall>category. length (?contribution category) \<le> 2"
    by (simp split: sum.splits)
  from two have total: "length (concat (map ?contribution ?categories)) \<le> 2 * length ?categories"
    by (rule length_concat_bounded)
  from bad ok rej len two total show ?thesis by (simp add: Let_def)
qed

text \<open>
  Claim C5 as stated bounds the length of the category list by 3 and 5. A provider that
  answers \<^verbatim>\<open>books\<close> yields a list of one category:
\<close>

theorem recommendations_category_count_counterexample:
  "fst (get_recommendations (env_reply ''books'') shop ''alice'') = Inr ([], [''books'']) \<and>
   \<not> 3 \<le> length (snd (projr (fst (get_recommendations (env_reply ''books'') shop ''alice''))))"
proof -
  have "get_recommendations (env_reply ''books'') shop ''alice'' = (Inr ([], [''books'']), shop)"
    by code_simp
  then show ?thesis by simp
qed

theorem recommendations_two_per_category_witness:
  "send_message (env_reply ''Home , home,HOME'') 0 (recommendation_prompt shop ''alice'') =
     Inr ''Home , home,HOME'' \<and>
   get_recommendations (env_reply ''Home , home,HOME'') shop ''alice'' =
     (Inr ([widget, widget, widget], [''home'', ''home'', ''home'']), shop) \<and>
   send_message env_down 0 (recommendation_prompt shop ''alice'') =
     Inl (ProviderError ''provider unavailable'') \<and>
   get_recommendations env_down shop ''alice'' =
     (Inl (HTTPException 500 (Str (ProviderError ''provider unavailable''))), shop) \<and>
   send_message (env_reply ''toys (kids'') 0 (recommendation_prompt shop ''alice'') =
     Inr ''toys (kids'' \<and>
   isl (fst (get_recommendations (env_reply ''toys (kids'') shop ''alice''))"
proof -
  let ?w = "env_reply ''Home , home,HOME''"
  let ?v = "env_reply ''toys (kids''"
  have up: "send_message ?w 0 (recommendation_prompt shop ''alice'') = Inr ''Home , home,HOME''"
    by (simp add: env_reply_def)
  have up': "send_message ?v 0 (recommendation_prompt shop ''alice'') = Inr ''toys (kids''"
    by (simp add: env_reply_def)
  have down: "send_message env_down 0 (recommendation_prompt shop ''alice'') =
      Inl (ProviderError ''provider unavailable'')"
    by (simp add: env_down_def)
  have cats: "map (\<lambda>cat. str_lower ?w (str_strip ?w cat)) (str_split (CHR '','') ''Home , home,HOME'') =
      [''home'', ''home'', ''home'']"
    by code_simp
  have acc: "\<not> isl (regex ?w (''(?i)'' @ ''home''))"
    by code_simp
  have contrib: "(case regex ?w (''(?i)'' @ ''home'') of
         Inl e \<Rightarrow> []
       | Inr found_in \<Rightarrow> take 2 (find_all (\<lambda>p. found_in (p_category p)) (products shop))) =
      [widget]"
    by code_simp
  from recommendations_two_per_category
         [where w = ?w and d = shop and user_id = "''alice''"
            and response = "''Home , home,HOME''"] up
  have "(\<forall>category\<in>set (map (\<lambda>cat. str_lower ?w (str_strip ?w cat))
                               (str_split (CHR '','') ''Home , home,HOME'')).
            \<not> isl (regex ?w (''(?i)'' @ category))) \<longrightarrow>
      get_recommendations ?w shop ''alice'' =
      (Inr (concat (map (\<lambda>category.
             case regex ?w (''(?i)'' @ category) of
               Inl e \<Rightarrow> []
             | Inr found_in \<Rightarrow> take 2 (find_all (\<lambda>p. found_in (p_category p)) (products shop)))
           (map (\<lambda>cat. str_lower ?w (str_strip ?w cat)) (str_split (CHR '','') ''Home , home,HOME''))),
           map (\<lambda>cat. str_lower ?w (str_strip ?w cat)) (str_split (CHR '','') ''Home , home,HOME'')), shop)"
    by (simp add: Let_def)
  then have a: "get_recommendations ?w shop ''alice'' =
     (Inr ([widget, widget, widget], [''home'', ''home'', ''home'']), shop)"
    unfolding cats using contrib acc by simp
  from recommendations_two_per_category
         [where w = env_down and d = shop and user_id = "''alice''"
            and e = "ProviderError ''provider unavailable''"] down
  have b: "get_recommendations env_down shop ''alice'' =
     (Inl (HTTPException 500 (Str (ProviderError ''provider unavailable''))), shop)"
    by blast
  have cats': "map (\<lambda>cat. str_lower ?v (str_strip ?v cat)) (str_split (CHR '','') ''toys (kids'') =
      [''toys (kids'']"
    by code_simp
  have rejd: "isl (regex ?v (''(?i)'' @ ''toys (kids''))"
    by code_simp
  from recommendations_two_per_category
         [where w = ?v and d = shop and user_id = "''alice''" and response = "''toys (kids''"] up'
  have "(\<exists>category\<in>set (map (\<lambda>cat. str_lower ?v (str_strip ?v cat))
                               (str_split (CHR '','') ''toys (kids'')).
            isl (regex ?v (''(?i)'' @ category))) \<longrightarrow>
      (\<exists>e'. get_recommendations ?v shop ''alice'' = (Inl (HTTPException 500 (Str e')), shop))"
    by (simp add: Let_def)
  then have "\<exists>e'. get_recommendations ?v shop ''alice'' = (Inl (HTTPException 500 (Str e')), shop)"
    unfolding cats' using rejd by simp
  then have c: "isl (fst (get_recommendations ?v shop ''alice''))" by auto
  from up up' down a b c show ?thesis by simp
qed

end
